theory Spec2Isabelle
  imports Main "HOL-Library.Word" "HOL-Library.Multiset" "HOL-Library.AList"
begin

chapter \<open>A shallow embedding of the gee-rpc framework\<close>

text \<open>
  The theory follows the Go sources of the RPC framework: the connection options and their
  parsing, the static multi-server discovery with its two selection modes, the gob codec
  over a connection, the client's table of pending calls, the service reflector and the
  server's per-connection request loop. Every Go function is a HOL function of the same
  name over explicit state; a Go \<open>error\<close> is a \<open>string option\<close> (\<open>None\<close> is \<open>nil\<close>), and a
  panic, a fatal log or a goroutine that blocks for ever is a value of type \<open>failure\<close>.
\<close>

section \<open>Failures\<close>

datatype failure =
    Panic string    \<comment> \<open>a run-time panic, among them a nil dereference and \<open>log.Panic\<close>\<close>
  | Fatal string    \<comment> \<open>\<open>log.Fatalf\<close>: the process exits\<close>
  | Blocked         \<comment> \<open>the goroutine waits on a channel that nobody serves\<close>

section \<open>Connection options\<close>

text \<open>\<open>const MagicNumber = 0x3bef5c\<close>\<close>

definition MagicNumber :: int where
  "MagicNumber = 0x3bef5c"

text \<open>\<open>codec.Type\<close> is a string; the two names the codec package declares.\<close>

type_synonym Type = string

definition GobType :: Type where
  "GobType = ''application/gob''"

definition JsonType :: Type where
  "JsonType = ''application/json''"

text \<open>
  \<open>type Option struct { MagicNumber int; CodecType codec.Type }\<close>. The field is named
  \<open>opt_MagicNumber\<close> here because the constant above has the name already.
\<close>

record Option =
  opt_MagicNumber :: int
  opt_CodecType :: Type

definition DefaultOption :: Option where
  "DefaultOption = \<lparr>opt_MagicNumber = MagicNumber, opt_CodecType = GobType\<rparr>"

text \<open>
  \<open>parseOptions(opts ...*Option)\<close>: the variadic argument is a list of pointers, \<open>None\<close>
  being the nil pointer. The result is the error (\<open>Inl\<close>) or the option the caller gets.
\<close>

definition parseOptions :: "Option option list \<Rightarrow> string + Option" where
  "parseOptions opts =
     (if length opts = 0 \<or> hd opts = None then Inr DefaultOption
      else if length opts \<noteq> 1 then Inl ''number of options is more than 1''
      else
        (case hd opts of
           None \<Rightarrow> Inr DefaultOption
         | Some opt0 \<Rightarrow>
             (let opt1 = opt0\<lparr>opt_MagicNumber := opt_MagicNumber DefaultOption\<rparr>;
                  opt2 = (if opt_CodecType opt1 = ''''
                          then opt1\<lparr>opt_CodecType := opt_CodecType DefaultOption\<rparr>
                          else opt1)
              in Inr opt2)))"

section \<open>Discovery over a fixed list of servers\<close>

text \<open>
  \<open>*rand.Rand\<close>: a source of numbers. The numbers it will produce are the function
  \<open>src\<close>, and \<open>pos\<close> counts the draws made so far. \<open>Intn n\<close> returns a number in
  \<open>[0, n)\<close>; Go panics for \<open>n \<le> 0\<close>, which neither call site below can pass.
\<close>

record Rand =
  src :: "nat \<Rightarrow> nat"
  pos :: nat

definition Intn :: "int \<Rightarrow> Rand \<Rightarrow> int \<times> Rand" where
  "Intn n rnd = (int (src rnd (pos rnd)) mod n, rnd\<lparr>pos := pos rnd + 1\<rparr>)"

text \<open>\<open>type SelectMode int\<close> with its two declared values.\<close>

type_synonym SelectMode = int

definition RandomSelect :: SelectMode where
  "RandomSelect = 0"

definition RoundRobinSelect :: SelectMode where
  "RoundRobinSelect = 1"

definition MaxInt32 :: int where
  "MaxInt32 = 2 ^ 31 - 1"

text \<open>
  Go's \<open>int\<close> has 64 bits here: \<open>wrap64\<close> is the value an \<open>int\<close> holds after an addition,
  and \<open>go_rem\<close> is Go's \<open>%\<close>, whose result has the sign of the dividend.
\<close>

definition wrap64 :: "int \<Rightarrow> int" where
  "wrap64 x = (x + 2 ^ 63) mod 2 ^ 64 - 2 ^ 63"

definition go_rem :: "int \<Rightarrow> int \<Rightarrow> int" where
  "go_rem a b = sgn a * (\<bar>a\<bar> mod \<bar>b\<bar>)"

text \<open>
  \<open>MultiServersDiscovery\<close>; the mutex is left out, every operation below being one
  critical section.
\<close>

record MultiServersDiscovery =
  r :: Rand
  servers :: "string list"
  index :: int

definition Refresh :: "MultiServersDiscovery \<Rightarrow> string option \<times> MultiServersDiscovery" where
  "Refresh d = (None, d)"

definition Update ::
  "string list \<Rightarrow> MultiServersDiscovery \<Rightarrow> string option \<times> MultiServersDiscovery" where
  "Update servers' d = (None, d\<lparr>servers := servers'\<rparr>)"

text \<open>
  \<open>Get\<close>: the result is a panic (an index out of range), or the pair \<open>(string, error)\<close>
  the Go function returns; the discovery after the call comes with it.
\<close>

definition Get ::
  "SelectMode \<Rightarrow> MultiServersDiscovery
     \<Rightarrow> (failure + string \<times> string option) \<times> MultiServersDiscovery" where
  "Get mode d =
     (let n = int (length (servers d)) in
      if n = 0 then (Inr ('''', Some ''rpc discovery: no available servers''), d)
      else if mode = RandomSelect then
        (let (i, r') = Intn n (r d)
         in (Inr (servers d ! nat i, None), d\<lparr>r := r'\<rparr>))
      else if mode = RoundRobinSelect then
        (let i = go_rem (index d) n in
         if i < 0 \<or> n \<le> i then (Inl (Panic ''index out of range''), d)
         else (Inr (servers d ! nat i, None),
               d\<lparr>index := go_rem (wrap64 (index d + 1)) n\<rparr>))
      else (Inr ('''', Some ''rpc discovery: not supported select mode''), d))"

definition GetAll ::
  "MultiServersDiscovery \<Rightarrow> (string list \<times> string option) \<times> MultiServersDiscovery" where
  "GetAll d = ((servers d, None), d)"

text \<open>
  \<open>NewMultiServersDiscovery\<close>: the random source is seeded from the clock, so the model
  takes it as the argument \<open>rnd\<close>; the index is its first draw below \<open>MaxInt32 - 1\<close>.
\<close>

definition NewMultiServersDiscovery :: "string list \<Rightarrow> Rand \<Rightarrow> MultiServersDiscovery" where
  "NewMultiServersDiscovery servers' rnd =
     (let (i, r') = Intn (MaxInt32 - 1) rnd
      in \<lparr>r = r', servers = servers', index = i\<rparr>)"

text \<open>
  \<open>k\<close> calls of \<open>Get(RoundRobinSelect)\<close> one after the other, with no other operation in
  between: the results in the order of the calls, and the discovery after the last one.
\<close>

fun consecutive_Gets ::
  "nat \<Rightarrow> MultiServersDiscovery
     \<Rightarrow> (failure + string \<times> string option) list \<times> MultiServersDiscovery" where
  "consecutive_Gets 0 d = ([], d)"
| "consecutive_Gets (Suc k) d =
     (let (x, d') = Get RoundRobinSelect d;
          (xs, d'') = consecutive_Gets k d'
      in (x # xs, d''))"

text \<open>
  The discovery after a history of \<open>Get\<close> calls in the given modes, whatever they returned.
\<close>

fun Get_history :: "SelectMode list \<Rightarrow> MultiServersDiscovery \<Rightarrow> MultiServersDiscovery" where
  "Get_history [] d = d"
| "Get_history (mode # modes) d = Get_history modes (snd (Get mode d))"

section \<open>Run-time types\<close>

text \<open>
  What the code asks of a \<open>reflect.Type\<close>: its name, its package path, its kind and, for
  the kinds that have one, its element type. The kind \<open>reflect.Int\<close> is written \<open>Int'\<close>.
\<close>

datatype kind =
  Bool | Int' | Uint64 | Float64 | String | Struct | Interface | Func | Chan | Array | Map
  | Slice | Ptr

datatype rtype = RType (Name: string) (PkgPath: string) (Kind: kind) (elem: "rtype option")

text \<open>\<open>Type.Elem()\<close> panics unless the kind is Array, Chan, Map, Ptr or Slice.\<close>

definition Elem :: "rtype \<Rightarrow> failure + rtype" where
  "Elem t =
     (if Kind t \<in> set [Array, Chan, Map, Ptr, Slice] then
        (case elem t of
           None \<Rightarrow> Inl (Panic ''reflect: Elem of invalid type'')
         | Some e \<Rightarrow> Inr e)
      else Inl (Panic ''reflect: Elem of invalid type''))"

section \<open>The codec over a connection\<close>

text \<open>\<open>codec.Header\<close>\<close>

record Header =
  ServiceMethod :: string
  Seq :: "64 word"
  Error :: string

text \<open>
  A connection carries encoded values. The model works at the level of whole values: one
  \<open>message\<close> stands for the bytes of one encoded value, the JSON option of the handshake,
  a header, a body, or bytes that decode to nothing. \<open>incoming\<close> is what the peer has sent
  and the program has not read yet, \<open>outgoing\<close> what the program has written.
\<close>

datatype 'b message = OptionMsg Option | HeaderMsg Header | BodyMsg 'b | Malformed

record 'b Conn =
  incoming :: "'b message list"
  outgoing :: "'b message list"
  closed :: bool

definition conn_Read :: "'b Conn \<Rightarrow> (string + 'b message) \<times> 'b Conn" where
  "conn_Read c =
     (if closed c then (Inl ''use of closed network connection'', c)
      else
        (case incoming c of
           [] \<Rightarrow> (Inl ''EOF'', c)
         | m # ms \<Rightarrow> (Inr m, c\<lparr>incoming := ms\<rparr>)))"

definition conn_Write :: "'b message \<Rightarrow> 'b Conn \<Rightarrow> string option \<times> 'b Conn" where
  "conn_Write m c =
     (if closed c then (Some ''use of closed network connection'', c)
      else (None, c\<lparr>outgoing := outgoing c @ [m]\<rparr>))"

definition conn_Close :: "'b Conn \<Rightarrow> string option \<times> 'b Conn" where
  "conn_Close c =
     (if closed c then (Some ''use of closed network connection'', c)
      else (None, c\<lparr>closed := True\<rparr>))"

text \<open>
  \<open>GobCodec\<close>. \<open>buf\<close> holds what was written to the buffered writer and not flushed.
  The gob encoder and decoder are library objects: \<open>enc\<close> says which bodies the encoder
  can encode, \<open>dec\<close> which bodies the decoder can store into a destination of a given
  type. A header can always be encoded. As in \<open>NewGobCodec\<close>, the encoder writes to the
  connection, not to the buffered writer.
\<close>

record 'b GobCodec =
  conn :: "'b Conn"
  buf :: "'b message list"
  dec :: "rtype \<Rightarrow> 'b \<Rightarrow> bool"
  enc :: "'b \<Rightarrow> bool"

definition NewGobCodec ::
  "(rtype \<Rightarrow> 'b \<Rightarrow> bool) \<Rightarrow> ('b \<Rightarrow> bool) \<Rightarrow> 'b Conn \<Rightarrow> 'b GobCodec" where
  "NewGobCodec d e c = \<lparr>conn = c, buf = [], dec = d, enc = e\<rparr>"

text \<open>\<open>ReadHeader\<close>: \<open>c.dec.Decode(h)\<close>, the next value read as a header.\<close>

definition ReadHeader :: "'b GobCodec \<Rightarrow> (string + Header) \<times> 'b GobCodec" where
  "ReadHeader c =
     (case conn_Read (conn c) of
        (Inl e, cn) \<Rightarrow> (Inl e, c\<lparr>conn := cn\<rparr>)
      | (Inr m, cn) \<Rightarrow>
          (case m of
             HeaderMsg h \<Rightarrow> (Inr h, c\<lparr>conn := cn\<rparr>)
           | _ \<Rightarrow> (Inl ''gob: type mismatch'', c\<lparr>conn := cn\<rparr>)))"

text \<open>
  \<open>ReadBody\<close>: \<open>c.dec.Decode(body)\<close>. The destination is the type the pointer points to,
  or \<open>None\<close> for \<open>nil\<close>, which makes the decoder discard the next value. The result is
  the error and the value stored into the destination, if one was.
\<close>

definition ReadBody ::
  "rtype option \<Rightarrow> 'b GobCodec \<Rightarrow> (string option \<times> 'b option) \<times> 'b GobCodec" where
  "ReadBody dest c =
     (case conn_Read (conn c) of
        (Inl e, cn) \<Rightarrow> ((Some e, None), c\<lparr>conn := cn\<rparr>)
      | (Inr m, cn) \<Rightarrow>
          (case dest of
             None \<Rightarrow> ((None, None), c\<lparr>conn := cn\<rparr>)
           | Some t \<Rightarrow>
               (case m of
                  BodyMsg b \<Rightarrow>
                    (if dec c t b then ((None, Some b), c\<lparr>conn := cn\<rparr>)
                     else ((Some ''gob: type mismatch'', None), c\<lparr>conn := cn\<rparr>))
                | _ \<Rightarrow> ((Some ''gob: type mismatch'', None), c\<lparr>conn := cn\<rparr>))))"

definition Close :: "'b GobCodec \<Rightarrow> string option \<times> 'b GobCodec" where
  "Close c = (let (e, cn) = conn_Close (conn c) in (e, c\<lparr>conn := cn\<rparr>))"

text \<open>\<open>c.buf.Flush()\<close>: what the buffered writer holds goes to the connection.\<close>

definition Flush :: "'b GobCodec \<Rightarrow> string option \<times> 'b GobCodec" where
  "Flush c =
     (if buf c = [] then (None, c)
      else if closed (conn c) then (Some ''use of closed network connection'', c)
      else (None, c\<lparr>conn := (conn c)\<lparr>outgoing := outgoing (conn c) @ buf c\<rparr>, buf := []\<rparr>))"

text \<open>
  \<open>c.enc.Encode\<close> of a header and of a body: the value goes to the connection; a body the
  encoder cannot encode is an error and nothing is written.
\<close>

definition Encode_header :: "Header \<Rightarrow> 'b GobCodec \<Rightarrow> string option \<times> 'b GobCodec" where
  "Encode_header h c =
     (let (e, cn) = conn_Write (HeaderMsg h) (conn c) in (e, c\<lparr>conn := cn\<rparr>))"

definition Encode_body :: "'b \<Rightarrow> 'b GobCodec \<Rightarrow> string option \<times> 'b GobCodec" where
  "Encode_body body c =
     (if enc c body then
        (let (e, cn) = conn_Write (BodyMsg body) (conn c) in (e, c\<lparr>conn := cn\<rparr>))
      else (Some ''gob: type cannot be encoded'', c))"

text \<open>
  The deferred function of \<open>Write\<close>: flush, and close the codec when \<open>err\<close> is not nil.
\<close>

definition Write_deferred :: "string option \<Rightarrow> 'b GobCodec \<Rightarrow> string option \<times> 'b GobCodec" where
  "Write_deferred err c =
     (let (_, c1) = Flush c
      in if err \<noteq> None then (err, snd (Close c1)) else (err, c1))"

definition Write :: "Header \<Rightarrow> 'b \<Rightarrow> 'b GobCodec \<Rightarrow> string option \<times> 'b GobCodec" where
  "Write h body c =
     (case Encode_header h c of
        (Some e, c1) \<Rightarrow> Write_deferred (Some e) c1
      | (None, c1) \<Rightarrow>
          (case Encode_body body c1 of
             (Some e, c2) \<Rightarrow> Write_deferred (Some e) c2
           | (None, c2) \<Rightarrow> Write_deferred None c2))"

text \<open>
  \<open>codec.NewCodecFuncMap\<close>: \<open>init\<close> registers the gob constructor and nothing else. The two
  arguments are the behaviour of the gob library the constructor builds on.
\<close>

definition NewCodecFuncMap ::
  "(rtype \<Rightarrow> 'b \<Rightarrow> bool) \<Rightarrow> ('b \<Rightarrow> bool) \<Rightarrow> Type \<rightharpoonup> ('b Conn \<Rightarrow> 'b GobCodec)" where
  "NewCodecFuncMap d e = Map.empty(GobType \<mapsto> NewGobCodec d e)"

section \<open>The client\<close>

text \<open>
  Calls and channels are shared between the client and its callers, so they live in a
  heap: a reference is an index into \<open>calls\<close> or \<open>chans\<close>, and a reference outside the heap
  (which no Go pointer can be) makes the operation panic. A channel of \<open>*Call\<close> is its
  capacity and the calls sent and not yet received.
\<close>

type_synonym call_ref = nat
type_synonym chan_ref = nat

record 'b Call =
  Call_Seq :: "64 word"
  Call_ServiceMethod :: string
  Args :: 'b
  Reply :: 'b
  Call_Error :: "string option"
  Done :: "chan_ref option"

record channel =
  cap :: nat
  queue :: "call_ref list"

record 'b heap =
  calls :: "'b Call list"
  chans :: "channel list"

definition make_chan :: "nat \<Rightarrow> 'b heap \<Rightarrow> chan_ref \<times> 'b heap" where
  "make_chan n hp = (length (chans hp), hp\<lparr>chans := chans hp @ [\<lparr>cap = n, queue = []\<rparr>]\<rparr>)"

definition new_Call :: "'b Call \<Rightarrow> 'b heap \<Rightarrow> call_ref \<times> 'b heap" where
  "new_Call c hp = (length (calls hp), hp\<lparr>calls := calls hp @ [c]\<rparr>)"

text \<open>
  \<open>call.Done <- call\<close>. The send returns when the buffer has room. No other goroutine
  receives while the operation runs, so a send on a full or unbuffered channel, and a send
  on the nil channel, block.
\<close>

definition done' :: "call_ref \<Rightarrow> 'b heap \<Rightarrow> failure + 'b heap" where
  "done' call hp =
     (if length (calls hp) \<le> call then Inl (Panic ''invalid memory address'')
      else
        (case Done (calls hp ! call) of
           None \<Rightarrow> Inl Blocked
         | Some ch \<Rightarrow>
             (if length (chans hp) \<le> ch then Inl (Panic ''invalid memory address'')
              else if length (queue (chans hp ! ch)) < cap (chans hp ! ch) then
                Inr (hp\<lparr>chans := (chans hp)
                       [ch := (chans hp ! ch)\<lparr>queue := queue (chans hp ! ch) @ [call]\<rparr>]\<rparr>)
              else Inl Blocked)))"

text \<open>\<open>call.Error = err\<close>\<close>

definition set_Error :: "call_ref \<Rightarrow> string option \<Rightarrow> 'b heap \<Rightarrow> 'b heap" where
  "set_Error call err hp =
     hp\<lparr>calls := (calls hp)[call := (calls hp ! call)\<lparr>Call_Error := err\<rparr>]\<rparr>"

text \<open>
  \<open>Client\<close>. The two mutexes are left out: each operation below runs as the critical
  section it is. \<open>pending\<close> is the map from sequence numbers to calls as a list of
  entries with distinct keys; a \<open>range\<close> over it visits the entries in the order of the
  list, one of the orders Go may choose.
\<close>

record 'b Client =
  cc :: "'b GobCodec"
  opt :: Option
  header :: Header
  seq :: "64 word"
  pending :: "(64 word \<times> call_ref) list"
  closing :: bool
  shutdown :: bool

definition ErrShutdown :: string where
  "ErrShutdown = ''connection is shut down''"

definition Client_Close :: "'b Client \<Rightarrow> string option \<times> 'b Client" where
  "Client_Close client =
     (if closing client then (Some ErrShutdown, client)
      else
        (let client1 = client\<lparr>closing := True\<rparr>;
             (e, cc1) = Close (cc client1)
         in (e, client1\<lparr>cc := cc1\<rparr>)))"

definition IsAvailable :: "'b Client \<Rightarrow> bool" where
  "IsAvailable client = (\<not> shutdown client \<and> \<not> closing client)"

definition registerCall ::
  "call_ref \<Rightarrow> 'b Client \<Rightarrow> 'b heap \<Rightarrow> (64 word \<times> string option) \<times> 'b Client \<times> 'b heap" where
  "registerCall call client hp =
     (if closing client \<or> shutdown client then ((0, Some ErrShutdown), client, hp)
      else
        (let hp1 = hp\<lparr>calls := (calls hp)[call := (calls hp ! call)\<lparr>Call_Seq := seq client\<rparr>]\<rparr>;
             client1 = client\<lparr>pending := AList.update (seq client) call (pending client)\<rparr>;
             client2 = client1\<lparr>seq := seq client1 + 1\<rparr>
         in ((seq client, None), client2, hp1)))"

definition removeCall :: "64 word \<Rightarrow> 'b Client \<Rightarrow> call_ref option \<times> 'b Client" where
  "removeCall s client =
     (map_of (pending client) s, client\<lparr>pending := AList.delete s (pending client)\<rparr>)"

text \<open>The loop of \<open>terminateCalls\<close> over the entries of the pending table.\<close>

fun terminateCalls_range ::
  "string option \<Rightarrow> (64 word \<times> call_ref) list \<Rightarrow> 'b heap \<Rightarrow> failure + 'b heap" where
  "terminateCalls_range err [] hp = Inr hp"
| "terminateCalls_range err ((k, call) # rest) hp =
     (case done' call (set_Error call err hp) of
        Inl f \<Rightarrow> Inl f
      | Inr hp1 \<Rightarrow> terminateCalls_range err rest hp1)"

definition terminateCalls ::
  "string option \<Rightarrow> 'b Client \<Rightarrow> 'b heap \<Rightarrow> failure + 'b Client \<times> 'b heap" where
  "terminateCalls err client hp =
     (let client1 = client\<lparr>shutdown := True\<rparr>
      in (case terminateCalls_range err (pending client1) hp of
            Inl f \<Rightarrow> Inl f
          | Inr hp1 \<Rightarrow> Inr (client1, hp1)))"

definition send :: "call_ref \<Rightarrow> 'b Client \<Rightarrow> 'b heap \<Rightarrow> failure + 'b Client \<times> 'b heap" where
  "send call client hp =
     (if length (calls hp) \<le> call then Inl (Panic ''invalid memory address'')
      else
        (case registerCall call client hp of
           ((s, Some e), client1, hp1) \<Rightarrow>
             (case done' call (set_Error call (Some e) hp1) of
                Inl f \<Rightarrow> Inl f
              | Inr hp2 \<Rightarrow> Inr (client1, hp2))
         | ((s, None), client1, hp1) \<Rightarrow>
             (let client2 = client1\<lparr>header :=
                    \<lparr>ServiceMethod = Call_ServiceMethod (calls hp1 ! call),
                     Seq = Call_Seq (calls hp1 ! call), Error = ''''\<rparr>\<rparr>
              in (case Write (header client2) (Args (calls hp1 ! call)) (cc client2) of
                    (Some e, cc1) \<Rightarrow>
                      (case removeCall s (client2\<lparr>cc := cc1\<rparr>) of
                         (None, client3) \<Rightarrow> Inr (client3, hp1)
                       | (Some call1, client3) \<Rightarrow>
                           (case done' call1 (set_Error call1 (Some e) hp1) of
                              Inl f \<Rightarrow> Inl f
                            | Inr hp2 \<Rightarrow> Inr (client3, hp2)))
                  | (None, cc1) \<Rightarrow> Inr (client2\<lparr>cc := cc1\<rparr>, hp1)))))"

text \<open>
  \<open>Go\<close>: \<open>done\<close> is a channel or \<open>None\<close> for the nil channel. The result is the new call,
  and the client and the heap after the call.
\<close>

definition Go ::
  "string \<Rightarrow> 'b \<Rightarrow> 'b \<Rightarrow> chan_ref option \<Rightarrow> 'b Client \<Rightarrow> 'b heap
     \<Rightarrow> failure + call_ref \<times> 'b Client \<times> 'b heap" where
  "Go serviceMethod args reply done client hp =
     (case
        (case done of
           None \<Rightarrow> Inr (make_chan 10 hp)
         | Some ch \<Rightarrow>
             (if length (chans hp) \<le> ch then Inl (Panic ''invalid memory address'')
              else if cap (chans hp ! ch) = 0 then
                Inl (Panic ''rpc client: done channel is unbuffered'')
              else Inr (ch, hp)))
      of
        Inl f \<Rightarrow> Inl f
      | Inr (done1, hp1) \<Rightarrow>
          (let (call, hp2) =
                 new_Call \<lparr>Call_Seq = 0, Call_ServiceMethod = serviceMethod, Args = args,
                           Reply = reply, Call_Error = None, Done = Some done1\<rparr> hp1
           in (case send call client hp2 of
                 Inl f \<Rightarrow> Inl f
               | Inr (client1, hp3) \<Rightarrow> Inr (call, client1, hp3))))"

text \<open>
  \<open>newClientCodec\<close>; the receive loop it starts is a goroutine of its own and is not part
  of this function's result.
\<close>

definition newClientCodec :: "'b GobCodec \<Rightarrow> Option \<Rightarrow> 'b Client" where
  "newClientCodec cc0 opt0 =
     \<lparr>cc = cc0, opt = opt0, header = \<lparr>ServiceMethod = '''', Seq = 0, Error = ''''\<rparr>, seq = 1,
      pending = [], closing = False, shutdown = False\<rparr>"

section \<open>The service reflector\<close>

text \<open>
  Values seen through reflection. What a value holds is a \<open>content\<close>: the zero value of
  its type, the empty struct, a map or a slice made empty, or data of the type \<open>'b\<close> of
  user values. A \<open>reflect.Value\<close> is its type and what it holds; for a value of pointer type
  that is what the pointee holds. The zero \<open>reflect.Value\<close> is \<open>None\<close> where one can occur.
\<close>

datatype 'b content = Zero | EmptyStruct | EmptyMap | EmptySlice | Data 'b

record 'b Value =
  vtype :: rtype
  held :: "'b content"

text \<open>\<open>reflect.New(t)\<close> has the unnamed type pointer to \<open>t\<close> and points to a zero \<open>t\<close>.\<close>

definition ptr_to :: "rtype \<Rightarrow> rtype" where
  "ptr_to t = RType '''' '''' Ptr (Some t)"

definition reflect_New :: "rtype \<Rightarrow> 'b Value" where
  "reflect_New t = \<lparr>vtype = ptr_to t, held = Zero\<rparr>"

text \<open>
  \<open>reflect.Method\<close>: the name, the parameter types (the receiver first) and result types
  of \<open>method.Type\<close>, and \<open>Func\<close>. A call of \<open>Func\<close> is a function from what the receiver,
  the argument and the reply pointee hold to what the reply pointee holds afterwards and
  the error the method returns.
\<close>

record 'b Method =
  Method_Name :: string
  Method_In :: "rtype list"
  Method_Out :: "rtype list"
  Func :: "'b content \<Rightarrow> 'b content \<Rightarrow> 'b content \<Rightarrow> 'b content \<times> string option"

text \<open>
  The \<open>rcvr interface{}\<close> given to registration, as reflection shows it: its dynamic type,
  the exported methods of that type in the order \<open>Type.Method(i)\<close> lists them, and what
  it holds.
\<close>

record 'b receiver =
  rtyp :: rtype
  rmethods :: "'b Method list"
  rheld :: "'b content"

record 'b methodType =
  method' :: "'b Method"
  ArgType :: rtype
  ReplyType :: rtype
  numCalls :: "64 word"

definition NumCalls :: "'b methodType \<Rightarrow> 64 word" where
  "NumCalls m = numCalls m"

definition newArgv :: "'b methodType \<Rightarrow> failure + 'b Value" where
  "newArgv m =
     (if Kind (ArgType m) = Ptr then
        (case Elem (ArgType m) of
           Inl f \<Rightarrow> Inl f
         | Inr e \<Rightarrow> Inr (reflect_New e))
      else Inr \<lparr>vtype = ArgType m, held = Zero\<rparr>)"

definition newReplyv :: "'b methodType \<Rightarrow> failure + 'b Value" where
  "newReplyv m =
     (case Elem (ReplyType m) of
        Inl f \<Rightarrow> Inl f
      | Inr e \<Rightarrow>
          (let replyv = reflect_New e
           in Inr (case Kind e of
                     Map \<Rightarrow> replyv\<lparr>held := EmptyMap\<rparr>
                   | Slice \<Rightarrow> replyv\<lparr>held := EmptySlice\<rparr>
                   | _ \<Rightarrow> replyv)))"

text \<open>
  \<open>service\<close>. The fields \<open>typ\<close> and \<open>method\<close> are named \<open>typ'\<close> and \<open>service_method\<close>.
\<close>

record 'b service =
  name :: string
  typ' :: rtype
  rcvr :: "'b receiver"
  service_method :: "string \<rightharpoonup> 'b methodType"

text \<open>
  \<open>ast.IsExported\<close>: the name starts with an upper-case letter. Strings are bytes here,
  and the letters are those of ASCII.
\<close>

definition IsExported :: "string \<Rightarrow> bool" where
  "IsExported s =
     (case s of
        [] \<Rightarrow> False
      | c # _ \<Rightarrow> 65 \<le> (of_char c :: nat) \<and> (of_char c :: nat) \<le> 90)"

definition isExportedOrBuiltinType :: "rtype \<Rightarrow> bool" where
  "isExportedOrBuiltinType t = (IsExported (Name t) \<or> PkgPath t = '''')"

text \<open>\<open>reflect.TypeOf((*error)(nil)).Elem()\<close>\<close>

definition errorType :: rtype where
  "errorType = RType ''error'' '''' Interface None"

text \<open>
  The loop of \<open>registerMethods\<close> over the methods of \<open>s.typ\<close>; \<open>acc\<close> is \<open>s.method\<close> so far.
\<close>

fun registerMethods_loop ::
  "'b Method list \<Rightarrow> (string \<rightharpoonup> 'b methodType) \<Rightarrow> (string \<rightharpoonup> 'b methodType)" where
  "registerMethods_loop [] acc = acc"
| "registerMethods_loop (m # ms) acc =
     (if length (Method_In m) \<noteq> 3 \<or> length (Method_Out m) \<noteq> 1 then
        registerMethods_loop ms acc
      else if Method_Out m ! 0 \<noteq> errorType then registerMethods_loop ms acc
      else
        (let argType = Method_In m ! 1; replyType = Method_In m ! 2 in
         if \<not> isExportedOrBuiltinType argType \<or> \<not> isExportedOrBuiltinType replyType then
           registerMethods_loop ms acc
         else
           registerMethods_loop ms
             (acc(Method_Name m \<mapsto>
                \<lparr>method' = m, ArgType = argType, ReplyType = replyType, numCalls = 0\<rparr>))))"

definition registerMethods :: "'b service \<Rightarrow> 'b service" where
  "registerMethods s =
     s\<lparr>service_method := registerMethods_loop (rmethods (rcvr s)) Map.empty\<rparr>"

text \<open>
  \<open>newService\<close>: the name is that of the receiver's type, or of the type it points to;
  \<open>log.Fatalf\<close> ends the process when the name is not exported.
\<close>

definition newService :: "'b receiver \<Rightarrow> failure + 'b service" where
  "newService rc =
     (case (if Kind (rtyp rc) = Ptr then Elem (rtyp rc) else Inr (rtyp rc)) of
        Inl f \<Rightarrow> Inl f
      | Inr t \<Rightarrow>
          (if \<not> IsExported (Name t) then
             Inl (Fatal (''rpc server: '' @ Name t @ '' is not valid service name''))
           else
             Inr (registerMethods
                    \<lparr>name = Name t, typ' = rtyp rc, rcvr = rc, service_method = Map.empty\<rparr>)))"

text \<open>
  \<open>service.call\<close>. The service and the method descriptor are pointers and may be nil. The
  result is the returned error, the reply value after the call, and the descriptor with
  its counter incremented.
\<close>

definition call ::
  "'b service option \<Rightarrow> 'b methodType option \<Rightarrow> 'b Value option \<Rightarrow> 'b Value option
     \<Rightarrow> failure + string option \<times> 'b Value \<times> 'b methodType" where
  "call s m argv replyv =
     (case m of
        None \<Rightarrow> Inl (Panic ''invalid memory address or nil pointer dereference'')
      | Some mt \<Rightarrow>
          (let mt1 = mt\<lparr>numCalls := numCalls mt + 1\<rparr> in
           case s of
             None \<Rightarrow> Inl (Panic ''invalid memory address or nil pointer dereference'')
           | Some sv \<Rightarrow>
               (case (argv, replyv) of
                  (Some a, Some rp) \<Rightarrow>
                    (let (out, err) = Func (method' mt1) (rheld (rcvr sv)) (held a) (held rp)
                     in Inr (err, rp\<lparr>held := out\<rparr>, mt1))
                | _ \<Rightarrow> Inl (Panic ''reflect: Call using zero Value argument''))))"

section \<open>The server\<close>

record 'b Server =
  serviceMap :: "string \<rightharpoonup> 'b service"

definition NewServer :: "'b Server" where
  "NewServer = \<lparr>serviceMap = Map.empty\<rparr>"

definition Register :: "'b receiver \<Rightarrow> 'b Server \<Rightarrow> failure + string option \<times> 'b Server" where
  "Register rc server =
     (case newService rc of
        Inl f \<Rightarrow> Inl f
      | Inr s \<Rightarrow>
          (case serviceMap server (name s) of
             Some _ \<Rightarrow> Inr (Some (''rpc: service already defined'' @ name s), server)
           | None \<Rightarrow> Inr (None, server\<lparr>serviceMap := (serviceMap server)(name s \<mapsto> s)\<rparr>)))"

text \<open>\<open>strings.LastIndex\<close> for a separator of one byte: \<open>-1\<close> when it does not occur.\<close>

definition LastIndex :: "string \<Rightarrow> char \<Rightarrow> int" where
  "LastIndex s c =
     (if c \<in> set s then int (length s) - 1 - int (length (takeWhile (\<lambda>x. x \<noteq> c) (rev s)))
      else - 1)"

text \<open>\<open>findService\<close> with its three named results \<open>svc\<close>, \<open>mtype\<close> and \<open>err\<close>.\<close>

definition findService ::
  "'b Server \<Rightarrow> string \<Rightarrow> 'b service option \<times> 'b methodType option \<times> string option" where
  "findService server serviceMethod =
     (let dot = LastIndex serviceMethod CHR ''.'' in
      if dot < 0 then
        (None, None, Some (''rpc server: service/method request ill-formed:'' @ serviceMethod))
      else
        (let serviceName = take (nat dot) serviceMethod;
             methodName = drop (nat dot + 1) serviceMethod
         in (case serviceMap server serviceName of
               None \<Rightarrow>
                 (None, None, Some (''rpc server: can't find service '' @ serviceName))
             | Some svc0 \<Rightarrow>
                 (case service_method svc0 methodName of
                    None \<Rightarrow>
                      (Some svc0, None, Some (''rpc server: can't find method '' @ methodName))
                  | Some mtype0 \<Rightarrow> (Some svc0, Some mtype0, None)))))"

text \<open>\<open>var invalidRequest = struct{}{}\<close>\<close>

definition invalidRequest :: "'b content" where
  "invalidRequest = EmptyStruct"

record 'b request =
  h :: Header
  argv :: "'b Value option"
  replyv :: "'b Value option"
  mtype :: "'b methodType option"
  svc :: "'b service option"

definition readRequestHeader ::
  "'b content GobCodec \<Rightarrow> (Header option \<times> string option) \<times> 'b content GobCodec" where
  "readRequestHeader cc0 =
     (case ReadHeader cc0 of
        (Inl e, cc1) \<Rightarrow> ((None, Some e), cc1)
      | (Inr h0, cc1) \<Rightarrow> ((Some h0, None), cc1))"

text \<open>
  \<open>readRequest\<close>: the request (a pointer, \<open>None\<close> for nil) and the error, with the codec
  after the reads; or the panic of \<open>newArgv\<close> or \<open>newReplyv\<close>, with the codec as it is when
  the process dies. The destination of \<open>ReadBody\<close> is the argument itself when \<open>argv\<close> is
  a pointer and its address otherwise.
\<close>

definition readRequest ::
  "'b Server \<Rightarrow> 'b content GobCodec
     \<Rightarrow> failure \<times> 'b content GobCodec
         + ('b request option \<times> string option) \<times> 'b content GobCodec" where
  "readRequest server cc0 =
     (case readRequestHeader cc0 of
        ((None, err), cc1) \<Rightarrow> Inr ((None, err), cc1)
      | ((Some h0, Some e), cc1) \<Rightarrow> Inr ((None, Some e), cc1)
      | ((Some h0, None), cc1) \<Rightarrow>
          (let req = \<lparr>h = h0, argv = None, replyv = None, mtype = None, svc = None\<rparr>;
               (svc1, mtype1, err) = findService server (ServiceMethod h0);
               req1 = req\<lparr>svc := svc1, mtype := mtype1\<rparr>
           in (case (err, mtype1) of
                 (Some e, _) \<Rightarrow> Inr ((Some req1, Some e), cc1)
               | (None, None) \<Rightarrow>
                   Inl (Panic ''invalid memory address or nil pointer dereference'', cc1)
               | (None, Some m) \<Rightarrow>
                   (case newArgv m of
                      Inl f \<Rightarrow> Inl (f, cc1)
                    | Inr argv1 \<Rightarrow>
                        (case newReplyv m of
                           Inl f \<Rightarrow> Inl (f, cc1)
                         | Inr replyv1 \<Rightarrow>
                             (let req2 = req1\<lparr>argv := Some argv1, replyv := Some replyv1\<rparr>;
                                  dest = (if Kind (vtype argv1) \<noteq> Ptr then Some (vtype argv1)
                                          else elem (vtype argv1))
                              in (case ReadBody dest cc1 of
                                    ((Some e, _), cc2) \<Rightarrow> Inr ((Some req2, Some e), cc2)
                                  | ((None, None), cc2) \<Rightarrow> Inr ((Some req2, None), cc2)
                                  | ((None, Some b), cc2) \<Rightarrow>
                                      Inr ((Some (req2\<lparr>argv := Some (argv1\<lparr>held := b\<rparr>)\<rparr>),
                                            None), cc2))))))))"

text \<open>\<open>sendResponse\<close>: the error of \<open>Write\<close> is logged and dropped.\<close>

definition sendResponse ::
  "'b content GobCodec \<Rightarrow> Header \<Rightarrow> 'b content \<Rightarrow> 'b content GobCodec" where
  "sendResponse cc0 h0 body = snd (Write h0 body cc0)"

text \<open>
  The descriptor a call has incremented is the one in the server's service map; the model
  writes it back there.
\<close>

definition store_method :: "'b Server \<Rightarrow> 'b service \<Rightarrow> 'b methodType \<Rightarrow> 'b Server" where
  "store_method server s m =
     (case serviceMap server (name s) of
        None \<Rightarrow> server
      | Some s0 \<Rightarrow>
          server\<lparr>serviceMap := (serviceMap server)
            (name s \<mapsto> s0\<lparr>service_method :=
               (service_method s0)(Method_Name (method' m) \<mapsto> m)\<rparr>)\<rparr>)"

text \<open>
  \<open>handleRequest\<close>. After the error response there is no \<open>return\<close>: the second
  \<open>sendResponse\<close> runs as well, with the header whose \<open>Error\<close> was set.
\<close>

definition handleRequest ::
  "'b Server \<Rightarrow> 'b content GobCodec \<Rightarrow> 'b request
     \<Rightarrow> failure + 'b Server \<times> 'b content GobCodec" where
  "handleRequest server cc0 req =
     (case call (svc req) (mtype req) (argv req) (replyv req) of
        Inl f \<Rightarrow> Inl f
      | Inr (err, replyv1, m1) \<Rightarrow>
          (let server1 = (case svc req of None \<Rightarrow> server | Some s \<Rightarrow> store_method server s m1)
           in (case err of
                 Some e \<Rightarrow>
                   (let req1 = req\<lparr>h := (h req)\<lparr>Error := e\<rparr>\<rparr>;
                        cc1 = sendResponse cc0 (h req1) invalidRequest
                    in Inr (server1, sendResponse cc1 (h req1) (held replyv1)))
               | None \<Rightarrow> Inr (server1, sendResponse cc0 (h req) (held replyv1)))))"

text \<open>
  One pass through the loop of \<open>serveCodec\<close>. The handler that \<open>go\<close> starts runs to its
  end before the next request is read, which is one of the schedules of the program; a
  panic in it ends the process, and the failure comes with the codec as it is then. After
  the error response there is no \<open>continue\<close>: the handler is started for that request as
  well. The result says whether the loop goes on.
\<close>

definition serveCodec_pass ::
  "'b Server \<Rightarrow> 'b content GobCodec
     \<Rightarrow> failure \<times> 'b content GobCodec + bool \<times> 'b Server \<times> 'b content GobCodec" where
  "serveCodec_pass server cc0 =
     (case readRequest server cc0 of
        Inl f \<Rightarrow> Inl f
      | Inr ((None, Some e), cc1) \<Rightarrow> Inr (False, server, cc1)
      | Inr ((None, None), cc1) \<Rightarrow>
          Inl (Panic ''invalid memory address or nil pointer dereference'', cc1)
      | Inr ((Some req, Some e), cc1) \<Rightarrow>
          (let req1 = req\<lparr>h := (h req)\<lparr>Error := e\<rparr>\<rparr>;
               cc2 = sendResponse cc1 (h req1) invalidRequest
           in (case handleRequest server cc2 req1 of
                 Inl f \<Rightarrow> Inl (f, cc2)
               | Inr (server1, cc3) \<Rightarrow> Inr (True, server1, cc3)))
      | Inr ((Some req, None), cc1) \<Rightarrow>
          (case handleRequest server cc1 req of
             Inl f \<Rightarrow> Inl (f, cc1)
           | Inr (server1, cc3) \<Rightarrow> Inr (True, server1, cc3)))"

text \<open>The codec after a pass, whichever way the pass ended.\<close>

definition pass_codec ::
  "failure \<times> 'b content GobCodec + bool \<times> 'b Server \<times> 'b content GobCodec
     \<Rightarrow> 'b content GobCodec" where
  "pass_codec res = (case res of Inl (f, cc1) \<Rightarrow> cc1 | Inr (go_on, server1, cc1) \<Rightarrow> cc1)"

text \<open>
  Every pass that lets the loop go on has read a header, and nothing puts input back: the
  unread input gets shorter, so the loop ends.
\<close>

lemma Write_incoming: "incoming (conn (snd (Write hdr body c))) = incoming (conn c)"
  by (simp add: Write_def Write_deferred_def Encode_header_def Encode_body_def conn_Write_def
      Flush_def Close_def conn_Close_def split: prod.splits option.splits)

lemma sendResponse_incoming: "incoming (conn (sendResponse c hdr body)) = incoming (conn c)"
  by (simp add: sendResponse_def Write_incoming)

lemma handleRequest_incoming:
  "handleRequest server c req = Inr (server1, c1) \<Longrightarrow> incoming (conn c1) = incoming (conn c)"
  by (auto simp: handleRequest_def Let_def sendResponse_incoming
      split: sum.splits option.splits prod.splits)

lemma ReadBody_incoming:
  "ReadBody dest c = (res, c1) \<Longrightarrow> length (incoming (conn c1)) \<le> length (incoming (conn c))"
  by (auto simp: ReadBody_def conn_Read_def
      split: list.splits option.splits message.splits if_splits)

lemma readRequestHeader_incoming:
  "readRequestHeader c = ((Some hdr, err), c1) \<Longrightarrow>
     length (incoming (conn c1)) < length (incoming (conn c))"
  by (auto simp: readRequestHeader_def ReadHeader_def conn_Read_def
      split: list.splits message.splits if_splits)

lemma readRequest_incoming:
  assumes "readRequest server c = Inr ((Some req, err), c1)"
  shows "length (incoming (conn c1)) < length (incoming (conn c))"
proof -
  obtain ho e0 c0 where rh: "readRequestHeader c = ((ho, e0), c0)"
    by (cases "readRequestHeader c") auto
  from assms rh obtain hdr where ho: "ho = Some hdr"
    by (cases ho) (auto simp: readRequest_def)
  have lt: "length (incoming (conn c0)) < length (incoming (conn c))"
    using readRequestHeader_incoming rh ho by blast
  have "length (incoming (conn c1)) \<le> length (incoming (conn c0))"
    using assms rh ho
    by (auto simp: readRequest_def Let_def
        split: option.splits prod.splits sum.splits dest: ReadBody_incoming)
  with lt show ?thesis by simp
qed

lemma serveCodec_pass_incoming:
  assumes "serveCodec_pass server c = Inr (True, server1, c1)"
  shows "length (incoming (conn c1)) < length (incoming (conn c))"
  using assms
  by (auto simp: serveCodec_pass_def Let_def sendResponse_incoming
      split: sum.splits option.splits prod.splits
      dest!: readRequest_incoming handleRequest_incoming)

text \<open>The loop of \<open>serveCodec\<close>.\<close>

function serveCodec_loop ::
  "'b Server \<Rightarrow> 'b content GobCodec
     \<Rightarrow> failure \<times> 'b content GobCodec + 'b Server \<times> 'b content GobCodec" where
  "serveCodec_loop server cc0 =
     (case serveCodec_pass server cc0 of
        Inl f \<Rightarrow> Inl f
      | Inr (go_on, server1, cc1) \<Rightarrow>
          (if go_on then serveCodec_loop server1 cc1 else Inr (server1, cc1)))"
  by pat_completeness auto
termination
  by (relation "measure (\<lambda>(server, cc0). length (incoming (conn cc0)))")
    (auto dest: serveCodec_pass_incoming)

text \<open>\<open>serveCodec\<close>: the loop, then \<open>wg.Wait()\<close> and \<open>cc.Close()\<close>.\<close>

definition serveCodec ::
  "'b Server \<Rightarrow> 'b content GobCodec
     \<Rightarrow> failure \<times> 'b content GobCodec + 'b Server \<times> 'b content GobCodec" where
  "serveCodec server cc0 =
     (case serveCodec_loop server cc0 of
        Inl f \<Rightarrow> Inl f
      | Inr (server1, cc1) \<Rightarrow> Inr (server1, snd (Close cc1)))"

text \<open>\<open>json.NewDecoder(conn).Decode(&opt)\<close>: the next value read as an option.\<close>

definition json_Decode :: "'b Conn \<Rightarrow> (string + Option) \<times> 'b Conn" where
  "json_Decode c =
     (case conn_Read c of
        (Inl e, c1) \<Rightarrow> (Inl e, c1)
      | (Inr m, c1) \<Rightarrow>
          (case m of
             OptionMsg opt0 \<Rightarrow> (Inr opt0, c1)
           | _ \<Rightarrow> (Inl ''invalid character'', c1)))"

text \<open>
  \<open>ServerConn\<close>. \<open>d\<close> and \<open>e\<close> are the behaviour of the gob library, as for
  \<open>NewCodecFuncMap\<close>. The deferred \<open>conn.Close()\<close> runs on every return; when a handler has
  panicked the process is dead and the result is the failure with the connection as it is.
\<close>

definition ServerConn ::
  "'b Server \<Rightarrow> (rtype \<Rightarrow> 'b content \<Rightarrow> bool) \<Rightarrow> ('b content \<Rightarrow> bool) \<Rightarrow> 'b content Conn
     \<Rightarrow> failure \<times> 'b content Conn + 'b Server \<times> 'b content Conn" where
  "ServerConn server d e conn0 =
     (case json_Decode conn0 of
        (Inl err, conn1) \<Rightarrow> Inr (server, snd (conn_Close conn1))
      | (Inr opt0, conn1) \<Rightarrow>
          (if opt_MagicNumber opt0 \<noteq> MagicNumber then Inr (server, snd (conn_Close conn1))
           else
             (case NewCodecFuncMap d e (opt_CodecType opt0) of
                None \<Rightarrow> Inr (server, snd (conn_Close conn1))
              | Some f \<Rightarrow>
                  (case serveCodec server (f conn1) of
                     Inl (fl, cc1) \<Rightarrow> Inl (fl, conn cc1)
                   | Inr (server1, cc1) \<Rightarrow> Inr (server1, snd (conn_Close (conn cc1)))))))"

section \<open>Example states\<close>

text \<open>
  Concrete states for the examples below: a codec over an open connection whose gob
  encoder refuses the body \<open>0\<close>, a fresh client on it, and the client and heap after one
  \<open>Go\<close> with the nil channel, before and after \<open>terminateCalls\<close>.
\<close>

definition example_conn :: "nat Conn" where
  "example_conn = \<lparr>incoming = [], outgoing = [], closed = False\<rparr>"

definition example_cc :: "nat GobCodec" where
  "example_cc = NewGobCodec (\<lambda>t b. True) (\<lambda>b. b \<noteq> 0) example_conn"

definition example_client :: "nat Client" where
  "example_client = newClientCodec example_cc DefaultOption"

definition example_heap :: "nat heap" where
  "example_heap = \<lparr>calls = [], chans = []\<rparr>"

definition client_busy :: "nat Client" where
  "client_busy =
     \<lparr>cc = example_cc\<lparr>conn := example_conn\<lparr>outgoing :=
             [HeaderMsg \<lparr>ServiceMethod = ''Foo.Sum'', Seq = 1, Error = ''''\<rparr>, BodyMsg 7]\<rparr>\<rparr>,
      opt = DefaultOption,
      header = \<lparr>ServiceMethod = ''Foo.Sum'', Seq = 1, Error = ''''\<rparr>,
      seq = 2, pending = [(1, 0)], closing = False, shutdown = False\<rparr>"

definition heap_busy :: "nat heap" where
  "heap_busy =
     \<lparr>calls = [\<lparr>Call_Seq = 1, Call_ServiceMethod = ''Foo.Sum'', Args = 7, Reply = 0,
                Call_Error = None, Done = Some 0\<rparr>],
      chans = [\<lparr>cap = 10, queue = []\<rparr>]\<rparr>"

definition heap_terminated :: "nat heap" where
  "heap_terminated =
     \<lparr>calls = [\<lparr>Call_Seq = 1, Call_ServiceMethod = ''Foo.Sum'', Args = 7, Reply = 0,
                Call_Error = Some ''EOF'', Done = Some 0\<rparr>],
      chans = [\<lparr>cap = 10, queue = [0]\<rparr>]\<rparr>"

definition heap_two_chans :: "nat heap" where
  "heap_two_chans = \<lparr>calls = [], chans = [\<lparr>cap = 0, queue = []\<rparr>, \<lparr>cap = 1, queue = []\<rparr>]\<rparr>"


text \<open>
  A receiver as the demo programs register it: \<open>&foo\<close> with \<open>type Foo int\<close>, and user values
  that are lists of integers. \<open>Sum\<close> adds its arguments; \<open>Fail\<close> has the same signature and
  returns an error; the reply parameter of \<open>Bad\<close> is an \<open>int\<close>, not a pointer.
\<close>

definition Foo_type :: rtype where
  "Foo_type = RType ''Foo'' ''main'' Int' None"

definition Args_type :: rtype where
  "Args_type = RType ''Args'' ''main'' Struct None"

definition int_type :: rtype where
  "int_type = RType ''int'' '''' Int' None"

definition Sum_method :: "int list Method" where
  "Sum_method =
     \<lparr>Method_Name = ''Sum'', Method_In = [ptr_to Foo_type, Args_type, ptr_to int_type],
      Method_Out = [errorType],
      Func = (\<lambda>rc a rp. case a of Data xs \<Rightarrow> (Data [sum_list xs], None) | _ \<Rightarrow> (Data [0], None))\<rparr>"

definition Fail_method :: "int list Method" where
  "Fail_method =
     \<lparr>Method_Name = ''Fail'', Method_In = [ptr_to Foo_type, Args_type, ptr_to int_type],
      Method_Out = [errorType], Func = (\<lambda>rc a rp. (rp, Some ''boom''))\<rparr>"

definition Bad_method :: "int list Method" where
  "Bad_method =
     \<lparr>Method_Name = ''Bad'', Method_In = [ptr_to Foo_type, Args_type, int_type],
      Method_Out = [errorType], Func = (\<lambda>rc a rp. (rp, None))\<rparr>"

definition example_receiver :: "int list receiver" where
  "example_receiver =
     \<lparr>rtyp = ptr_to Foo_type, rmethods = [Bad_method, Fail_method, Sum_method], rheld = Data [0]\<rparr>"

definition good_receiver :: "int list receiver" where
  "good_receiver =
     \<lparr>rtyp = ptr_to Foo_type, rmethods = [Fail_method, Sum_method], rheld = Data [0]\<rparr>"

definition example_server :: "int list Server" where
  "example_server =
     (case Register good_receiver NewServer of
        Inr (err, server) \<Rightarrow> server
      | Inl f \<Rightarrow> NewServer)"

text \<open>A server-side codec over an open connection with the given unread input.\<close>

definition server_cc :: "int list content message list \<Rightarrow> int list content GobCodec" where
  "server_cc ms =
     NewGobCodec (\<lambda>t b. True) (\<lambda>b. True) \<lparr>incoming = ms, outgoing = [], closed = False\<rparr>"

definition Fail_header :: Header where
  "Fail_header = \<lparr>ServiceMethod = ''Foo.Fail'', Seq = 5, Error = ''''\<rparr>"

definition Fail_request :: "int list request" where
  "Fail_request =
     \<lparr>h = Fail_header,
      argv = Some \<lparr>vtype = Args_type, held = Data [1, 3]\<rparr>,
      replyv = Some \<lparr>vtype = ptr_to int_type, held = Zero\<rparr>,
      mtype = Some \<lparr>method' = Fail_method, ArgType = Args_type, ReplyType = ptr_to int_type,
                     numCalls = 0\<rparr>,
      svc = serviceMap example_server ''Foo''\<rparr>"

definition Bar_header :: Header where
  "Bar_header = \<lparr>ServiceMethod = ''Bar.Sum'', Seq = 6, Error = ''''\<rparr>"

definition Foo_service :: "int list service" where
  "Foo_service =
     \<lparr>name = ''Foo'', typ' = ptr_to Foo_type, rcvr = good_receiver,
      service_method =
        [''Fail'' \<mapsto> \<lparr>method' = Fail_method, ArgType = Args_type,
                       ReplyType = ptr_to int_type, numCalls = 0\<rparr>,
         ''Sum'' \<mapsto> \<lparr>method' = Sum_method, ArgType = Args_type,
                      ReplyType = ptr_to int_type, numCalls = 0\<rparr>]\<rparr>"

definition bad_magic_conn :: "int list content Conn" where
  "bad_magic_conn =
     \<lparr>incoming = [OptionMsg \<lparr>opt_MagicNumber = 1, opt_CodecType = GobType\<rparr>,
                  HeaderMsg Fail_header, BodyMsg (Data [1, 3])],
      outgoing = [], closed = False\<rparr>"

definition json_codec_conn :: "int list content Conn" where
  "json_codec_conn =
     \<lparr>incoming = [OptionMsg \<lparr>opt_MagicNumber = MagicNumber, opt_CodecType = JsonType\<rparr>,
                  HeaderMsg Fail_header, BodyMsg (Data [1, 3])],
      outgoing = [], closed = False\<rparr>"

section \<open>Properties\<close>

subsection \<open>Option parsing\<close>

text \<open>
  C6. For every call of \<open>parseOptions\<close> with exactly one non-nil option, the returned
  option's magic number is the default \<open>0x3bef5c\<close> whatever the caller supplied, an empty
  codec type is replaced by the default gob codec type, and a non-empty one is kept.
\<close>

theorem parseOptions_single:
  "parseOptions [Some opt0] =
     Inr (opt0\<lparr>opt_MagicNumber := 0x3bef5c,
               opt_CodecType := (if opt_CodecType opt0 = '''' then ''application/gob''
                                 else opt_CodecType opt0)\<rparr>)"
  by (simp add: parseOptions_def DefaultOption_def MagicNumber_def GobType_def Let_def)

subsection \<open>Round-robin selection\<close>

lemma Get_RoundRobin:
  assumes "servers d \<noteq> []" "0 \<le> index d" "index d < 2 ^ 63 - 1"
  shows "Get RoundRobinSelect d =
           (Inr (servers d ! (nat (index d) mod length (servers d)), None),
            d\<lparr>index := (index d + 1) mod int (length (servers d))\<rparr>)"
proof -
  let ?n = "int (length (servers d))"
  have n: "0 < ?n" using assms(1) by simp
  have w: "wrap64 (index d + 1) = index d + 1"
    using assms(2,3) by (simp add: wrap64_def)
  have r1: "go_rem (index d) ?n = index d mod ?n"
    using assms(2) n by (cases "index d = 0") (simp_all add: go_rem_def)
  have r2: "go_rem (index d + 1) ?n = (index d + 1) mod ?n"
    using assms(2) n by (simp add: go_rem_def)
  have b: "0 \<le> index d mod ?n" "index d mod ?n < ?n"
    using n by simp_all
  have nn: "nat (index d mod ?n) = nat (index d) mod length (servers d)"
    using assms(2) by (simp add: nat_mod_distrib)
  have c: "\<not> (index d mod ?n < 0 \<or> ?n \<le> index d mod ?n)"
    using b by linarith
  have m: "RoundRobinSelect \<noteq> RandomSelect"
    by (simp add: RoundRobinSelect_def RandomSelect_def)
  have z: "?n \<noteq> 0" using n by linarith
  show ?thesis
    unfolding Get_def Let_def r1 w r2 nn[symmetric]
    using c m z by (simp only: if_False if_True refl)
qed

lemma consecutive_Gets_RoundRobin:
  assumes "servers d \<noteq> []" "int (length (servers d)) < 2 ^ 63" "0 \<le> index d" "index d < 2 ^ 63 - 1"
  shows "consecutive_Gets k d =
           (map (\<lambda>j. Inr (servers d ! ((nat (index d) + j) mod length (servers d)), None)) [0..<k],
            if k = 0 then d else d\<lparr>index := (index d + int k) mod int (length (servers d))\<rparr>)"
  using assms
proof (induction k arbitrary: d)
  case 0
  then show ?case by simp
next
  case (Suc k)
  let ?n = "int (length (servers d))"
  let ?d' = "d\<lparr>index := (index d + 1) mod ?n\<rparr>"
  have n: "0 < ?n" using Suc.prems(1) by simp
  have g: "Get RoundRobinSelect d =
             (Inr (servers d ! (nat (index d) mod length (servers d)), None), ?d')"
    using Suc.prems by (simp add: Get_RoundRobin)
  have i0: "0 \<le> index ?d'" using n by simp
  have i1: "index ?d' < 2 ^ 63 - 1"
  proof -
    have "(index d + 1) mod ?n < ?n" using n by simp
    then show ?thesis using Suc.prems(2) by simp
  qed
  have ih: "consecutive_Gets k ?d' =
           (map (\<lambda>j. Inr (servers ?d' ! ((nat (index ?d') + j) mod length (servers ?d')), None)) [0..<k],
            if k = 0 then ?d' else ?d'\<lparr>index := (index ?d' + int k) mod int (length (servers ?d'))\<rparr>)"
    using Suc.IH[of ?d'] Suc.prems(1,2) i0 i1 by simp
  have idx: "(nat ((index d + 1) mod ?n) + j) mod length (servers d)
               = (nat (index d) + Suc j) mod length (servers d)" for j
  proof -
    have "nat ((index d + 1) mod ?n) = (nat (index d) + 1) mod length (servers d)"
      using Suc.prems(3) by (simp add: nat_mod_distrib nat_add_distrib)
    then show ?thesis by (simp add: mod_add_left_eq)
  qed
  have st: "((index d + 1) mod ?n + int k) mod ?n = (index d + int (Suc k)) mod ?n"
  proof -
    have "((index d + 1) mod ?n + int k) mod ?n = ((index d + 1) + int k) mod ?n"
      by (rule mod_add_left_eq)
    also have "\<dots> = (index d + int (Suc k)) mod ?n"
      by (simp add: algebra_simps)
    finally show ?thesis .
  qed
  have up: "[0..<Suc k] = 0 # map Suc [0..<k]"
    by (simp add: upt_conv_Cons map_Suc_upt del: upt_Suc)
  show ?case
    unfolding consecutive_Gets.simps g up
    by (simp add: ih idx st o_def del: upt_Suc)
qed

lemma rotation_by_index:
  assumes "xs \<noteq> []"
  shows "map (\<lambda>j. xs ! ((i + j) mod length xs)) [0..<length xs] = rotate i xs"
proof (rule nth_equalityI)
  show "length (map (\<lambda>j. xs ! ((i + j) mod length xs)) [0..<length xs]) = length (rotate i xs)"
    by simp
next
  fix k assume "k < length (map (\<lambda>j. xs ! ((i + j) mod length xs)) [0..<length xs])"
  then have k: "k < length xs" by simp
  then show "map (\<lambda>j. xs ! ((i + j) mod length xs)) [0..<length xs] ! k = rotate i xs ! k"
    by (simp add: nth_rotate)
qed


lemma mset_rotate_eq: "mset (rotate n xs) = mset xs"
proof -
  let ?k = "n mod length xs"
  have "mset (rotate n xs) = mset (drop ?k xs) + mset (take ?k xs)"
    by (simp add: rotate_drop_take)
  also have "\<dots> = mset (take ?k xs @ drop ?k xs)"
    by (simp only: mset_append add.commute)
  also have "\<dots> = mset xs"
    by (simp only: append_take_drop_id)
  finally show ?thesis .
qed

lemma NewMultiServersDiscovery_fields:
  "NewMultiServersDiscovery ss rnd =
     \<lparr>r = rnd\<lparr>pos := pos rnd + 1\<rparr>, servers = ss,
      index = int (src rnd (pos rnd)) mod (MaxInt32 - 1)\<rparr>"
  by (simp add: NewMultiServersDiscovery_def Intn_def)

lemma Get_step:
  assumes "servers d \<noteq> []" and "int (length (servers d)) < 2 ^ 63"
    and "0 \<le> index d" and "index d < 2 ^ 63 - 1"
  shows "servers (snd (Get mode d)) = servers d"
    and "0 \<le> index (snd (Get mode d))"
    and "index (snd (Get mode d)) < 2 ^ 63 - 1"
    and "nat (index (snd (Get mode d))) mod length (servers d)
           = (nat (index d) + (if mode = RoundRobinSelect then 1 else 0)) mod length (servers d)"
proof -
  let ?n = "int (length (servers d))"
  have n: "0 < ?n" using assms(1) by simp
  have z: "?n \<noteq> 0" using n by linarith
  show "servers (snd (Get mode d)) = servers d"
    by (simp add: Get_def Let_def split: prod.splits)
  show "0 \<le> index (snd (Get mode d))"
  proof (cases "mode = RoundRobinSelect")
    case True
    then show ?thesis using n by (simp add: Get_RoundRobin[OF assms(1,3,4)])
  next
    case False
    then show ?thesis using assms(3) by (simp add: Get_def Let_def split: prod.splits)
  qed
  show "index (snd (Get mode d)) < 2 ^ 63 - 1"
  proof (cases "mode = RoundRobinSelect")
    case True
    have "(index d + 1) mod ?n < ?n" using n by simp
    then show ?thesis using True assms(2) by (simp add: Get_RoundRobin[OF assms(1,3,4)])
  next
    case False
    then show ?thesis using assms(4) by (simp add: Get_def Let_def split: prod.splits)
  qed
  show "nat (index (snd (Get mode d))) mod length (servers d)
          = (nat (index d) + (if mode = RoundRobinSelect then 1 else 0)) mod length (servers d)"
  proof (cases "mode = RoundRobinSelect")
    case True
    have "nat ((index d + 1) mod ?n) = (nat (index d) + 1) mod length (servers d)"
      using assms(3) by (simp add: nat_mod_distrib nat_add_distrib)
    then show ?thesis using True by (simp add: Get_RoundRobin[OF assms(1,3,4)])
  next
    case False
    then show ?thesis by (simp add: Get_def Let_def split: prod.splits)
  qed
qed

lemma Get_history_state:
  assumes "servers d \<noteq> []" and "int (length (servers d)) < 2 ^ 63"
    and "0 \<le> index d" and "index d < 2 ^ 63 - 1"
  shows "servers (Get_history modes d) = servers d
       \<and> 0 \<le> index (Get_history modes d) \<and> index (Get_history modes d) < 2 ^ 63 - 1
       \<and> nat (index (Get_history modes d)) mod length (servers d)
           = (nat (index d) + length (filter (\<lambda>mode. mode = RoundRobinSelect) modes))
               mod length (servers d)"
  using assms
proof (induction modes arbitrary: d)
  case Nil
  then show ?case by simp
next
  case (Cons mode modes)
  let ?d1 = "snd (Get mode d)"
  let ?k = "length (filter (\<lambda>mode. mode = RoundRobinSelect) modes)"
  note st = Get_step[OF Cons.prems, of mode]
  have p: "servers ?d1 \<noteq> []" "int (length (servers ?d1)) < 2 ^ 63"
    using Cons.prems(1,2) by (simp_all add: st(1))
  note ih = Cons.IH[OF p st(2) st(3), unfolded st(1)]
  have "nat (index (Get_history modes ?d1)) mod length (servers d)
          = (nat (index ?d1) mod length (servers d) + ?k) mod length (servers d)"
    using ih by (simp add: mod_add_left_eq)
  also have "\<dots> = ((nat (index d) + (if mode = RoundRobinSelect then 1 else 0))
                      mod length (servers d) + ?k) mod length (servers d)"
    by (simp only: st(4))
  also have "\<dots> = (nat (index d)
                     + length (filter (\<lambda>mode. mode = RoundRobinSelect) (mode # modes)))
                    mod length (servers d)"
    by (simp add: mod_add_left_eq)
  finally show ?case using ih by simp
qed

text \<open>
  C7. A discovery built by \<open>NewMultiServersDiscovery\<close> over \<open>N \<ge> 1\<close> addresses starts
  from an index drawn from its random source. With no \<open>Update\<close> in between, after any
  history of \<open>Get\<close> calls the next \<open>N\<close> calls of \<open>Get(RoundRobinSelect)\<close> all succeed and
  return the server list rotated by the initial index plus the number of round-robin
  calls in the history: each of the \<open>N\<close> addresses exactly once. (A Go slice has fewer than
  \<open>2 ^ 63\<close> elements.)
\<close>

theorem RoundRobin_rotation:
  assumes "servers0 \<noteq> []" and "int (length servers0) < 2 ^ 63"
  shows "index (NewMultiServersDiscovery servers0 rnd) = int (src rnd (pos rnd)) mod (MaxInt32 - 1)
       \<and> fst (consecutive_Gets (length servers0)
              (Get_history modes (NewMultiServersDiscovery servers0 rnd)))
           = map (\<lambda>s. Inr (s, None))
               (rotate (nat (index (NewMultiServersDiscovery servers0 rnd))
                        + length (filter (\<lambda>mode. mode = RoundRobinSelect) modes)) servers0)
       \<and> mset (map (\<lambda>s. Inr (s, None)) servers0)
           = mset (fst (consecutive_Gets (length servers0)
              (Get_history modes (NewMultiServersDiscovery servers0 rnd))))"
proof -
  let ?d0 = "NewMultiServersDiscovery servers0 rnd"
  let ?dm = "Get_history modes ?d0"
  let ?k = "length (filter (\<lambda>mode. mode = RoundRobinSelect) modes)"
  have s0: "servers ?d0 = servers0"
    by (simp add: NewMultiServersDiscovery_fields)
  have i0: "index ?d0 = int (src rnd (pos rnd)) mod (MaxInt32 - 1)"
    by (simp add: NewMultiServersDiscovery_fields)
  have lo: "0 \<le> index ?d0" and hi: "index ?d0 < 2 ^ 63 - 1"
  proof -
    have "0 \<le> int (src rnd (pos rnd)) mod (MaxInt32 - 1)"
      by (simp add: MaxInt32_def)
    then show "0 \<le> index ?d0" by (simp only: i0)
    have "int (src rnd (pos rnd)) mod (MaxInt32 - 1) < MaxInt32 - 1"
      by (rule pos_mod_bound) (simp add: MaxInt32_def)
    then show "index ?d0 < 2 ^ 63 - 1" by (simp add: i0 MaxInt32_def)
  qed
  have p0: "servers ?d0 \<noteq> []" "int (length (servers ?d0)) < 2 ^ 63"
    using assms by (simp_all add: s0)
  note hist = Get_history_state[OF p0 lo hi, of modes, unfolded s0]
  have sm: "servers ?dm = servers0" using hist by simp
  have lom: "0 \<le> index ?dm" and him: "index ?dm < 2 ^ 63 - 1" using hist by simp_all
  have im: "nat (index ?dm) mod length servers0 = (nat (index ?d0) + ?k) mod length servers0"
    using hist by simp
  have "fst (consecutive_Gets (length servers0) ?dm) =
      map (\<lambda>j. Inr (servers0 ! ((nat (index ?dm) + j) mod length servers0), None))
        [0..<length servers0]"
  proof -
    have p1: "servers ?dm \<noteq> []" and p2: "int (length (servers ?dm)) < 2 ^ 63"
      using assms by (simp_all add: sm)
    show ?thesis
      using consecutive_Gets_RoundRobin[OF p1 p2 lom him, of "length servers0"]
      by (simp only: sm fst_conv)
  qed
  also have "\<dots> = map (\<lambda>s. Inr (s, None))
      (map (\<lambda>j. servers0 ! ((nat (index ?dm) mod length servers0 + j) mod length servers0))
        [0..<length servers0])"
    by (simp add: o_def mod_add_left_eq)
  also have "\<dots> = map (\<lambda>s. Inr (s, None)) (rotate (nat (index ?dm) mod length servers0) servers0)"
    by (simp only: rotation_by_index[OF assms(1)])
  also have "\<dots> = map (\<lambda>s. Inr (s, None)) (rotate (nat (index ?d0) + ?k) servers0)"
    by (simp only: im rotate_conv_mod[symmetric])
  finally have main: "fst (consecutive_Gets (length servers0) ?dm) =
      map (\<lambda>s. Inr (s, None)) (rotate (nat (index ?d0) + ?k) servers0)" .
  have "mset (map (\<lambda>s. Inr (s, None)) servers0 :: (failure + string \<times> string option) list)
      = mset (fst (consecutive_Gets (length servers0) ?dm))"
    by (simp only: main mset_map mset_rotate_eq)
  with i0 main show ?thesis by blast
qed

theorem RoundRobin_rotation_witness:
  "[''a'', ''b'', ''c''] \<noteq> [] \<and> int (length [''a'', ''b'', ''c'']) < 2 ^ 63
   \<and> index (NewMultiServersDiscovery [''a'', ''b'', ''c''] \<lparr>src = (\<lambda>k. 7), pos = 0\<rparr>) = 7
   \<and> fst (consecutive_Gets 3
        (Get_history [RoundRobinSelect, RandomSelect, RoundRobinSelect]
          (NewMultiServersDiscovery [''a'', ''b'', ''c''] \<lparr>src = (\<lambda>k. 7), pos = 0\<rparr>)))
      = [Inr (''a'', None), Inr (''b'', None), Inr (''c'', None)]"
proof -
  have a: "[''a'', ''b'', ''c''] \<noteq> []" by simp
  have b: "int (length [''a'', ''b'', ''c'']) < 2 ^ 63" by simp
  have i: "index (NewMultiServersDiscovery [''a'', ''b'', ''c''] \<lparr>src = (\<lambda>k. 7), pos = 0\<rparr>) = 7"
    by (simp add: NewMultiServersDiscovery_fields MaxInt32_def)
  have k: "length (filter (\<lambda>mode. mode = RoundRobinSelect)
             [RoundRobinSelect, RandomSelect, RoundRobinSelect]) = 2"
    by (simp add: RoundRobinSelect_def RandomSelect_def)
  have rot: "rotate (nat 7 + 2) [''a'', ''b'', ''c''] = [''a'', ''b'', ''c'']"
    by (simp add: numeral_eq_Suc rotate1_def)
  have len: "length [''a'', ''b'', ''c''] = 3" by simp
  note t = RoundRobin_rotation[OF a b, of "\<lparr>src = (\<lambda>k. 7), pos = 0\<rparr>"
      "[RoundRobinSelect, RandomSelect, RoundRobinSelect]",
      unfolded i k rot list.map, THEN conjunct2, THEN conjunct1]
  have "fst (consecutive_Gets 3
        (Get_history [RoundRobinSelect, RandomSelect, RoundRobinSelect]
          (NewMultiServersDiscovery [''a'', ''b'', ''c''] \<lparr>src = (\<lambda>k. 7), pos = 0\<rparr>)))
      = [Inr (''a'', None), Inr (''b'', None), Inr (''c'', None)]"
    using t by (simp only: len)
  with a b i show ?thesis by blast
qed

subsection \<open>The gob codec\<close>












subsection \<open>The client\<close>

text \<open>
  Neither \<open>done\<close> nor \<open>send\<close> raises the panic of an unbuffered channel: it can only come
  from the check at the start of \<open>Go\<close>.
\<close>

lemma done'_not_unbuffered:
  "done' cref hp \<noteq> Inl (Panic ''rpc client: done channel is unbuffered'')"
  by (simp add: done'_def split: option.splits)

lemma send_not_unbuffered:
  "send cref client hp \<noteq> Inl (Panic ''rpc client: done channel is unbuffered'')"
proof (cases "length (calls hp) \<le> cref")
  case True
  then show ?thesis by (simp add: send_def)
next
  case valid: False
  obtain se client1 hp1 where fields: "registerCall cref client hp = (se, client1, hp1)"
    by (cases "registerCall cref client hp")
  obtain s e where se: "se = (s, e)" by (cases se)
  show ?thesis
  proof (cases e)
    case (Some err)
    then show ?thesis
      using fields se done'_not_unbuffered[of cref "set_Error cref (Some err) hp1"]
      by (auto simp: send_def valid split: sum.splits)
  next
    case None
    let ?client2 = "client1\<lparr>header :=
                 \<lparr>ServiceMethod = Call_ServiceMethod (calls hp1 ! cref),
                  Seq = Call_Seq (calls hp1 ! cref), Error = ''''\<rparr>\<rparr>"
    obtain e2 cc1 where w: "Write (header ?client2) (Args (calls hp1 ! cref)) (cc ?client2) = (e2, cc1)"
      by (cases "Write (header ?client2) (Args (calls hp1 ! cref)) (cc ?client2)")
    show ?thesis
    proof (cases e2)
      case None2: None
      then show ?thesis using fields se None w by (simp add: send_def valid Let_def)
    next
      case (Some err)
      obtain c3 client3 where rc: "removeCall s (?client2\<lparr>cc := cc1\<rparr>) = (c3, client3)"
        by (cases "removeCall s (?client2\<lparr>cc := cc1\<rparr>)")
      show ?thesis
      proof (cases c3)
        case None3: None
        then show ?thesis using fields se None w Some rc by (simp add: send_def valid Let_def)
      next
        case (Some call1)
        then show ?thesis
          using fields se None w \<open>e2 = Some err\<close> rc
            done'_not_unbuffered[of call1 "set_Error call1 (Some err) hp1"]
          by (auto simp: send_def valid Let_def split: sum.splits)
      qed
    qed
  qed
qed

text \<open>
  C8. For a non-nil \<open>done\<close> channel, \<open>Client.Go\<close> fails with the panic
  \<open>rpc client: done channel is unbuffered\<close> exactly when the capacity of the channel is 0:
  always for capacity 0, never for a capacity of 1 or more.
\<close>

theorem Go_unbuffered_panic:
  assumes "ch < length (chans hp)"
  shows "(Go serviceMethod args reply (Some ch) client hp
            = Inl (Panic ''rpc client: done channel is unbuffered''))
         = (cap (chans hp ! ch) = 0)"
proof (cases "cap (chans hp ! ch) = 0")
  case True
  then show ?thesis using assms by (simp add: Go_def)
next
  case False
  let ?c = "\<lparr>Call_Seq = 0, Call_ServiceMethod = serviceMethod, Args = args,
              Reply = reply, Call_Error = None, Done = Some ch\<rparr>"
  obtain cref hp2 where nc: "new_Call ?c hp = (cref, hp2)"
    by (cases "new_Call ?c hp")
  have "Go serviceMethod args reply (Some ch) client hp
          \<noteq> Inl (Panic ''rpc client: done channel is unbuffered'')"
    using assms False nc send_not_unbuffered[of cref client hp2]
    by (auto simp: Go_def split: sum.splits)
  with False show ?thesis by simp
qed

theorem Go_unbuffered_panic_witness:
  "0 < length (chans heap_two_chans) \<and> cap (chans heap_two_chans ! 0) = 0
   \<and> Go ''Foo.Sum'' 7 0 (Some 0) example_client heap_two_chans
       = Inl (Panic ''rpc client: done channel is unbuffered'')
   \<and> 1 < length (chans heap_two_chans) \<and> cap (chans heap_two_chans ! 1) = 1
   \<and> Go ''Foo.Sum'' 7 0 (Some 1) example_client heap_two_chans
       \<noteq> Inl (Panic ''rpc client: done channel is unbuffered'')"
proof -
  have a: "0 < length (chans heap_two_chans)" and b: "1 < length (chans heap_two_chans)"
    by (simp_all add: heap_two_chans_def)
  have c: "cap (chans heap_two_chans ! 0) = 0" "cap (chans heap_two_chans ! 1) = 1"
    by (simp_all add: heap_two_chans_def)
  show ?thesis
    using Go_unbuffered_panic[OF a, of "''Foo.Sum''" 7 0 example_client]
      Go_unbuffered_panic[OF b, of "''Foo.Sum''" 7 0 example_client] a b c
    by simp
qed








text \<open>The example states are those of a fresh client after one \<open>Go\<close>.\<close>

lemma Go_example:
  "Go ''Foo.Sum'' 7 0 None example_client example_heap = Inr (0, client_busy, heap_busy)"
  by (simp add: Go_def make_chan_def new_Call_def send_def registerCall_def Let_def
      Write_def Encode_header_def Encode_body_def conn_Write_def Write_deferred_def Flush_def
      example_client_def example_heap_def example_cc_def example_conn_def client_busy_def
      heap_busy_def newClientCodec_def NewGobCodec_def)

lemma terminateCalls_example:
  "terminateCalls (Some ''EOF'') client_busy heap_busy
     = Inr (client_busy\<lparr>shutdown := True\<rparr>, heap_terminated)"
  by (simp add: terminateCalls_def done'_def set_Error_def client_busy_def heap_busy_def
      heap_terminated_def)

lemma Client_Close_example:
  "fst (Client_Close client_busy) = None \<and> pending (snd (Client_Close client_busy)) = [(1, 0)]"
  by (simp add: Client_Close_def Close_def conn_Close_def client_busy_def example_cc_def
      example_conn_def NewGobCodec_def Let_def)

text \<open>
  C3, as stated, fails. After one \<open>Go\<close> on a fresh client the pending table holds the
  call under sequence number 1; \<open>terminateCalls\<close> completes and \<open>Close\<close> returns \<open>nil\<close>,
  and after either the table still holds that entry.
\<close>

theorem pending_not_emptied:
  "Go ''Foo.Sum'' 7 0 None example_client example_heap = Inr (0, client_busy, heap_busy)
   \<and> terminateCalls (Some ''EOF'') client_busy heap_busy
       = Inr (client_busy\<lparr>shutdown := True\<rparr>, heap_terminated)
   \<and> pending (client_busy\<lparr>shutdown := True\<rparr>) = [(1, 0)]
   \<and> pending (client_busy\<lparr>shutdown := True\<rparr>) \<noteq> []
   \<and> fst (Client_Close client_busy) = None
   \<and> pending (snd (Client_Close client_busy)) = [(1, 0)]
   \<and> pending (snd (Client_Close client_busy)) \<noteq> []"
  using Go_example terminateCalls_example Client_Close_example
  by (simp add: client_busy_def)

text \<open>
  C3, amended. \<open>terminateCalls\<close> and \<open>Close\<close> remove nothing from the pending table: when
  \<open>terminateCalls\<close> completes the table holds the entries it held before and \<open>shutdown\<close> is
  set, and after \<open>Close\<close> the table holds the entries it held before and \<open>closing\<close> is set.
\<close>

theorem pending_kept:
  "(terminateCalls err client hp = Inr (client', hp') \<longrightarrow>
      pending client' = pending client \<and> shutdown client')
   \<and> pending (snd (Client_Close client)) = pending client
   \<and> closing (snd (Client_Close client))"
proof -
  have t: "pending client' = pending client \<and> shutdown client'"
    if "terminateCalls err client hp = Inr (client', hp')"
    using that by (auto simp: terminateCalls_def Let_def split: sum.splits)
  have c: "pending (snd (Client_Close client)) = pending client"
    "closing (snd (Client_Close client))"
    by (simp_all add: Client_Close_def Let_def split: prod.splits)
  from t c show ?thesis by blast
qed

theorem pending_kept_witness:
  "terminateCalls (Some ''EOF'') client_busy heap_busy
       = Inr (client_busy\<lparr>shutdown := True\<rparr>, heap_terminated)
   \<and> pending (client_busy\<lparr>shutdown := True\<rparr>) = pending client_busy
   \<and> pending client_busy = [(1, 0)]
   \<and> shutdown (client_busy\<lparr>shutdown := True\<rparr>)
   \<and> pending (snd (Client_Close client_busy)) = pending client_busy
   \<and> closing (snd (Client_Close client_busy))"
  using pending_kept[of "Some ''EOF''" client_busy heap_busy "client_busy\<lparr>shutdown := True\<rparr>"
      heap_terminated] terminateCalls_example
  by (simp add: client_busy_def)

subsection \<open>The service reflector and the server\<close>

text \<open>The example server holds the service \<open>Foo\<close> with its methods \<open>Fail\<close> and \<open>Sum\<close>.\<close>

lemma newService_good: "newService good_receiver = Inr Foo_service"
  by (simp add: newService_def registerMethods_def good_receiver_def ptr_to_def Elem_def
      Foo_type_def IsExported_def isExportedOrBuiltinType_def Fail_method_def Sum_method_def
      errorType_def Args_type_def int_type_def Foo_service_def Let_def)

lemma example_server_map: "serviceMap example_server = [''Foo'' \<mapsto> Foo_service]"
  by (simp add: example_server_def Register_def newService_good NewServer_def Foo_service_def)

text \<open>
  On an open connection with nothing buffered, a response whose body the encoder accepts
  is one frame on the wire: the header, then the body.
\<close>

lemma sendResponse_open:
  assumes "\<not> closed (conn c)" and "buf c = []" and "enc c body"
  shows "sendResponse c hdr body =
           c\<lparr>conn := (conn c)\<lparr>outgoing := outgoing (conn c) @ [HeaderMsg hdr, BodyMsg body]\<rparr>\<rparr>"
  using assms
  by (simp add: sendResponse_def Write_def Encode_header_def Encode_body_def conn_Write_def
      Write_deferred_def Flush_def)

text \<open>
  C1 says that \<open>handleRequest\<close> produces exactly one response frame for a request. When
  the method returns an error it does not: on an open connection whose encoder accepts both
  bodies it writes two frames, the error response and then the reply, both under the
  header with the request's \<open>Seq\<close> and the error set.
\<close>

theorem handleRequest_error_two_responses:
  assumes "call (svc req) (mtype req) (argv req) (replyv req) = Inr (Some e, replyv1, m1)"
    and "\<not> closed (conn cc0)" and "buf cc0 = []"
    and "enc cc0 invalidRequest" and "enc cc0 (held replyv1)"
  shows "\<exists>server1 cc1. handleRequest server cc0 req = Inr (server1, cc1)
           \<and> outgoing (conn cc1) =
               outgoing (conn cc0) @
                 [HeaderMsg ((h req)\<lparr>Error := e\<rparr>), BodyMsg invalidRequest,
                  HeaderMsg ((h req)\<lparr>Error := e\<rparr>), BodyMsg (held replyv1)]
           \<and> Seq ((h req)\<lparr>Error := e\<rparr>) = Seq (h req)"
proof -
  let ?h1 = "(h req)\<lparr>Error := e\<rparr>"
  let ?cc1 = "sendResponse cc0 ?h1 invalidRequest"
  have s1: "?cc1 = cc0\<lparr>conn := (conn cc0)\<lparr>outgoing := outgoing (conn cc0) @
                [HeaderMsg ?h1, BodyMsg invalidRequest]\<rparr>\<rparr>"
    using assms(2,3,4) by (rule sendResponse_open)
  have open1: "\<not> closed (conn ?cc1)" "buf ?cc1 = []" "enc ?cc1 (held replyv1)"
    using assms(2,3,5) by (simp_all add: s1)
  have s2: "sendResponse ?cc1 ?h1 (held replyv1) =
              ?cc1\<lparr>conn := (conn ?cc1)\<lparr>outgoing := outgoing (conn ?cc1) @
                [HeaderMsg ?h1, BodyMsg (held replyv1)]\<rparr>\<rparr>"
    using open1 by (rule sendResponse_open)
  have "\<exists>server1. handleRequest server cc0 req
          = Inr (server1, sendResponse ?cc1 ?h1 (held replyv1))"
    using assms(1) by (simp add: handleRequest_def Let_def)
  moreover have "outgoing (conn (sendResponse ?cc1 ?h1 (held replyv1))) =
      outgoing (conn cc0) @ [HeaderMsg ?h1, BodyMsg invalidRequest,
                             HeaderMsg ?h1, BodyMsg (held replyv1)]"
    by (simp add: s2) (simp add: s1)
  ultimately show ?thesis by auto
qed

lemma call_Fail:
  "call (svc Fail_request) (mtype Fail_request) (argv Fail_request) (replyv Fail_request)
     = Inr (Some ''boom'', \<lparr>vtype = ptr_to int_type, held = Zero\<rparr>,
            \<lparr>method' = Fail_method, ArgType = Args_type, ReplyType = ptr_to int_type,
             numCalls = 1\<rparr>)"
  by (simp add: call_def Fail_request_def example_server_map Fail_method_def Let_def)

lemma readRequest_Fail:
  "readRequest example_server (server_cc [HeaderMsg Fail_header, BodyMsg (Data [1, 3])])
     = Inr ((Some Fail_request, None), server_cc [])"
  by (simp add: readRequest_def readRequestHeader_def ReadHeader_def ReadBody_def conn_Read_def
      server_cc_def NewGobCodec_def findService_def LastIndex_def Fail_header_def
      example_server_map Foo_service_def newArgv_def newReplyv_def Elem_def ptr_to_def
      reflect_New_def Args_type_def int_type_def Fail_request_def Let_def)

theorem handleRequest_error_two_responses_witness:
  "readRequest example_server (server_cc [HeaderMsg Fail_header, BodyMsg (Data [1, 3])])
     = Inr ((Some Fail_request, None), server_cc [])
   \<and> (\<exists>server1 cc1. handleRequest example_server (server_cc []) Fail_request = Inr (server1, cc1)
        \<and> outgoing (conn cc1) =
            [HeaderMsg \<lparr>ServiceMethod = ''Foo.Fail'', Seq = 5, Error = ''boom''\<rparr>,
             BodyMsg EmptyStruct,
             HeaderMsg \<lparr>ServiceMethod = ''Foo.Fail'', Seq = 5, Error = ''boom''\<rparr>,
             BodyMsg Zero])"
proof -
  have o: "\<not> closed (conn (server_cc []))" "buf (server_cc []) = []"
    "enc (server_cc []) invalidRequest" "enc (server_cc []) (held \<lparr>vtype = ptr_to int_type, held = Zero\<rparr>)"
    by (simp_all add: server_cc_def NewGobCodec_def)
  have hd: "(h Fail_request)\<lparr>Error := ''boom''\<rparr>
              = \<lparr>ServiceMethod = ''Foo.Fail'', Seq = 5, Error = ''boom''\<rparr>"
    by (simp add: Fail_request_def Fail_header_def)
  have og: "outgoing (conn (server_cc [])) = []"
    by (simp add: server_cc_def NewGobCodec_def)
  show ?thesis
    using handleRequest_error_two_responses[OF call_Fail o, of example_server] readRequest_Fail
    by (auto simp: hd og invalidRequest_def)
qed

text \<open>
  C4 says that every recorded \<open>ReplyType\<close> is a pointer type. For the receiver whose
  method \<open>Bad\<close> takes its reply as an \<open>int\<close>, registration records \<open>Bad\<close> with the
  \<open>ReplyType\<close> \<open>int\<close>, of kind \<open>Int\<close>, and \<open>newReplyv\<close> panics on that descriptor.
\<close>

theorem registerMethods_non_pointer_reply:
  "(case newService example_receiver of
      Inl f \<Rightarrow> False
    | Inr s \<Rightarrow>
        (case service_method s ''Bad'' of
           None \<Rightarrow> False
         | Some m \<Rightarrow>
             ReplyType m = int_type \<and> Kind (ReplyType m) = Int'
             \<and> newReplyv m = Inl (Panic ''reflect: Elem of invalid type'')))"
  by (simp add: newService_def registerMethods_def example_receiver_def ptr_to_def Elem_def
      Foo_type_def IsExported_def isExportedOrBuiltinType_def Fail_method_def Sum_method_def
      Bad_method_def errorType_def Args_type_def int_type_def newReplyv_def Let_def)

text \<open>
  C5. On an accepted (open) connection whose first value decodes to an option, if the
  option's magic number differs from \<open>MagicNumber\<close> or the codec registry has no
  constructor for its codec type, \<open>ServerConn\<close> returns with the connection closed, what
  followed the option unread, nothing written, and the server as it was.
\<close>

theorem ServerConn_rejects:
  assumes "\<not> closed conn0" and "incoming conn0 = OptionMsg opt0 # rest"
    and "opt_MagicNumber opt0 \<noteq> MagicNumber \<or> NewCodecFuncMap d e (opt_CodecType opt0) = None"
  shows "ServerConn server d e conn0 = Inr (server, conn0\<lparr>incoming := rest, closed := True\<rparr>)"
proof -
  have dec: "json_Decode conn0 = (Inr opt0, conn0\<lparr>incoming := rest\<rparr>)"
    using assms(1,2) by (simp add: json_Decode_def conn_Read_def)
  have cl: "snd (conn_Close (conn0\<lparr>incoming := rest\<rparr>)) = conn0\<lparr>incoming := rest, closed := True\<rparr>"
    using assms(1) by (simp add: conn_Close_def)
  show ?thesis
  proof (cases "opt_MagicNumber opt0 \<noteq> MagicNumber")
    case True
    then show ?thesis by (simp add: ServerConn_def dec cl)
  next
    case False
    with assms(3) have "NewCodecFuncMap d e (opt_CodecType opt0) = None" by simp
    with False show ?thesis by (simp add: ServerConn_def dec cl)
  qed
qed

theorem ServerConn_rejects_witness:
  "ServerConn example_server (\<lambda>t b. True) (\<lambda>b. True) bad_magic_conn
     = Inr (example_server,
            bad_magic_conn\<lparr>incoming := [HeaderMsg Fail_header, BodyMsg (Data [1, 3])],
                            closed := True\<rparr>)
   \<and> ServerConn example_server (\<lambda>t b. True) (\<lambda>b. True) json_codec_conn
     = Inr (example_server,
            json_codec_conn\<lparr>incoming := [HeaderMsg Fail_header, BodyMsg (Data [1, 3])],
                             closed := True\<rparr>)
   \<and> outgoing (bad_magic_conn\<lparr>incoming := [HeaderMsg Fail_header, BodyMsg (Data [1, 3])],
                               closed := True\<rparr>) = []"
proof -
  have a: "\<not> closed bad_magic_conn"
    "incoming bad_magic_conn = OptionMsg \<lparr>opt_MagicNumber = 1, opt_CodecType = GobType\<rparr>
        # [HeaderMsg Fail_header, BodyMsg (Data [1, 3])]"
    "opt_MagicNumber \<lparr>opt_MagicNumber = 1, opt_CodecType = GobType\<rparr> \<noteq> MagicNumber
     \<or> NewCodecFuncMap (\<lambda>t b. True) (\<lambda>b. True)
          (opt_CodecType \<lparr>opt_MagicNumber = 1, opt_CodecType = GobType\<rparr>) = None"
    by (simp_all add: bad_magic_conn_def MagicNumber_def)
  have b: "\<not> closed json_codec_conn"
    "incoming json_codec_conn
       = OptionMsg \<lparr>opt_MagicNumber = MagicNumber, opt_CodecType = JsonType\<rparr>
        # [HeaderMsg Fail_header, BodyMsg (Data [1, 3])]"
    "opt_MagicNumber \<lparr>opt_MagicNumber = MagicNumber, opt_CodecType = JsonType\<rparr> \<noteq> MagicNumber
     \<or> NewCodecFuncMap (\<lambda>t b. True) (\<lambda>b. True)
          (opt_CodecType \<lparr>opt_MagicNumber = MagicNumber, opt_CodecType = JsonType\<rparr>) = None"
    by (simp_all add: json_codec_conn_def NewCodecFuncMap_def GobType_def JsonType_def)
  have c: "outgoing (bad_magic_conn\<lparr>incoming := [HeaderMsg Fail_header, BodyMsg (Data [1, 3])],
                               closed := True\<rparr>) = []"
    by (simp add: bad_magic_conn_def)
  show ?thesis
    using ServerConn_rejects[OF a, of example_server] ServerConn_rejects[OF b, of example_server] c
    by simp
qed

text \<open>
  A failed lookup leaves \<open>mtype\<close> nil, \<open>readRequest\<close> returns before it touches the body,
  and the handler started for such a request dereferences the nil descriptor.
\<close>

lemma findService_error_mtype:
  "findService server sm = (s1, m1, Some e) \<Longrightarrow> m1 = None"
  by (auto simp: findService_def Let_def split: if_splits option.splits)

lemma readRequest_lookup_failure:
  assumes "\<not> closed (conn cc0)" and "incoming (conn cc0) = HeaderMsg hdr # rest"
    and "findService server (ServiceMethod hdr) = (s1, m1, Some e)"
  shows "readRequest server cc0 =
           Inr ((Some \<lparr>h = hdr, argv = None, replyv = None, mtype = None, svc = s1\<rparr>, Some e),
                cc0\<lparr>conn := (conn cc0)\<lparr>incoming := rest\<rparr>\<rparr>)"
proof -
  have m: "m1 = None" using assms(3) by (rule findService_error_mtype)
  have "readRequestHeader cc0 = ((Some hdr, None), cc0\<lparr>conn := (conn cc0)\<lparr>incoming := rest\<rparr>\<rparr>)"
    using assms(1,2) by (simp add: readRequestHeader_def ReadHeader_def conn_Read_def)
  then show ?thesis using assms(3) m by (simp add: readRequest_def)
qed

text \<open>
  C2, amended. When the lookup of a request header fails, \<open>readRequest\<close> returns the request
  with that header and the lookup error without reading the body, and \<open>serveCodec\<close> sends
  one response with the original header whose \<open>Error\<close> is the lookup error and with the
  body \<open>invalidRequest\<close>; the request body is still unread then.
\<close>

theorem lookup_failure_body_unread:
  assumes "\<not> closed (conn cc0)" and "incoming (conn cc0) = HeaderMsg hdr # rest"
    and "findService server (ServiceMethod hdr) = (s1, m1, Some e)"
  shows "(\<exists>req. readRequest server cc0
                  = Inr ((Some req, Some e), cc0\<lparr>conn := (conn cc0)\<lparr>incoming := rest\<rparr>\<rparr>)
               \<and> h req = hdr)
         \<and> pass_codec (serveCodec_pass server cc0)
             = sendResponse (cc0\<lparr>conn := (conn cc0)\<lparr>incoming := rest\<rparr>\<rparr>)
                 (hdr\<lparr>Error := e\<rparr>) invalidRequest
         \<and> incoming (conn (pass_codec (serveCodec_pass server cc0))) = rest"
proof -
  let ?cc1 = "cc0\<lparr>conn := (conn cc0)\<lparr>incoming := rest\<rparr>\<rparr>"
  let ?req = "\<lparr>h = hdr, argv = None, replyv = None, mtype = None, svc = s1\<rparr> :: 'a request"
  note rr = readRequest_lookup_failure[OF assms]
  have hr: "handleRequest server (sendResponse ?cc1 (hdr\<lparr>Error := e\<rparr>) invalidRequest)
              (?req\<lparr>h := (h ?req)\<lparr>Error := e\<rparr>\<rparr>)
            = Inl (Panic ''invalid memory address or nil pointer dereference'')"
    by (simp add: handleRequest_def call_def)
  have pc: "pass_codec (serveCodec_pass server cc0)
              = sendResponse ?cc1 (hdr\<lparr>Error := e\<rparr>) invalidRequest"
    using hr by (simp add: serveCodec_pass_def rr pass_codec_def Let_def)
  have "incoming (conn (pass_codec (serveCodec_pass server cc0))) = rest"
    by (simp add: pc sendResponse_incoming)
  with rr pc show ?thesis by simp
qed

text \<open>When the method returns no error, \<open>handleRequest\<close> writes one frame.\<close>

lemma handleRequest_success_one_response:
  assumes "call (svc req) (mtype req) (argv req) (replyv req) = Inr (None, replyv1, m1)"
    and "\<not> closed (conn cc0)" and "buf cc0 = []" and "enc cc0 (held replyv1)"
  shows "\<exists>server1 cc1. handleRequest server cc0 req = Inr (server1, cc1)
           \<and> outgoing (conn cc1) =
               outgoing (conn cc0) @ [HeaderMsg (h req), BodyMsg (held replyv1)]"
  using assms(1) sendResponse_open[OF assms(2,3,4), of "h req"]
  by (simp add: handleRequest_def Let_def)

lemma server_cc_fields:
  "incoming (conn (server_cc ms)) = ms" "outgoing (conn (server_cc ms)) = []"
  "\<not> closed (conn (server_cc ms))" "buf (server_cc ms) = []" "enc (server_cc ms) b"
  by (simp_all add: server_cc_def NewGobCodec_def)

lemma findService_Bar:
  "findService example_server (ServiceMethod Bar_header)
     = (None, None, Some ''rpc server: can't find service Bar'')"
  by (simp add: findService_def LastIndex_def Bar_header_def example_server_map Let_def)

lemma server_cc_Bar:
  "\<not> closed (conn (server_cc [HeaderMsg Bar_header, BodyMsg (Data [1, 3])]))"
  "incoming (conn (server_cc [HeaderMsg Bar_header, BodyMsg (Data [1, 3])]))
     = HeaderMsg Bar_header # [BodyMsg (Data [1, 3])]"
  "(server_cc [HeaderMsg Bar_header, BodyMsg (Data [1, 3])])
     \<lparr>conn := (conn (server_cc [HeaderMsg Bar_header, BodyMsg (Data [1, 3])]))
                \<lparr>incoming := [BodyMsg (Data [1, 3])]\<rparr>\<rparr>
     = server_cc [BodyMsg (Data [1, 3])]"
  by (simp_all add: server_cc_def NewGobCodec_def)

text \<open>
  C2, as stated, fails. A request for the unknown service \<open>Bar\<close>: \<open>readRequest\<close> returns
  the lookup error with the body still unread, and when the error response has been
  written the body is still the next value on the connection.
\<close>

theorem lookup_failure_body_not_discarded:
  "readRequest example_server (server_cc [HeaderMsg Bar_header, BodyMsg (Data [1, 3])])
     = Inr ((Some \<lparr>h = Bar_header, argv = None, replyv = None, mtype = None, svc = None\<rparr>,
             Some ''rpc server: can't find service Bar''),
            server_cc [BodyMsg (Data [1, 3])])
   \<and> outgoing (conn (pass_codec (serveCodec_pass example_server
          (server_cc [HeaderMsg Bar_header, BodyMsg (Data [1, 3])]))))
       = [HeaderMsg (Bar_header\<lparr>Error := ''rpc server: can't find service Bar''\<rparr>),
          BodyMsg invalidRequest]
   \<and> incoming (conn (pass_codec (serveCodec_pass example_server
          (server_cc [HeaderMsg Bar_header, BodyMsg (Data [1, 3])]))))
       = [BodyMsg (Data [1, 3])]"
proof -
  let ?cc = "server_cc [HeaderMsg Bar_header, BodyMsg (Data [1, 3])]"
  have rr: "readRequest example_server ?cc
     = Inr ((Some \<lparr>h = Bar_header, argv = None, replyv = None, mtype = None, svc = None\<rparr>,
             Some ''rpc server: can't find service Bar''),
            server_cc [BodyMsg (Data [1, 3])])"
    using readRequest_lookup_failure[OF server_cc_Bar(1,2) findService_Bar]
    by (simp only: server_cc_Bar(3))
  have o: "\<not> closed (conn (server_cc [BodyMsg (Data [1, 3])]))"
    "buf (server_cc [BodyMsg (Data [1, 3])]) = []"
    "enc (server_cc [BodyMsg (Data [1, 3])]) invalidRequest"
    by (simp_all add: server_cc_def NewGobCodec_def)
  have hr: "handleRequest example_server c
              \<lparr>h = hd', argv = None, replyv = None, mtype = None, svc = None\<rparr>
            = Inl (Panic ''invalid memory address or nil pointer dereference'')" for c hd'
    by (simp add: handleRequest_def call_def)
  have pc: "pass_codec (serveCodec_pass example_server ?cc)
      = sendResponse (server_cc [BodyMsg (Data [1, 3])])
          (Bar_header\<lparr>Error := ''rpc server: can't find service Bar''\<rparr>) invalidRequest"
    by (simp add: serveCodec_pass_def rr pass_codec_def Let_def hr)
  have "outgoing (conn (pass_codec (serveCodec_pass example_server ?cc)))
       = [HeaderMsg (Bar_header\<lparr>Error := ''rpc server: can't find service Bar''\<rparr>),
          BodyMsg invalidRequest]"
    unfolding pc sendResponse_open[OF o] by (simp add: server_cc_def NewGobCodec_def)
  moreover have "incoming (conn (pass_codec (serveCodec_pass example_server ?cc)))
       = [BodyMsg (Data [1, 3])]"
    unfolding pc sendResponse_incoming by (simp add: server_cc_def NewGobCodec_def)
  ultimately show ?thesis using rr by simp
qed

theorem lookup_failure_body_unread_witness:
  "\<not> closed (conn (server_cc [HeaderMsg Bar_header, BodyMsg (Data [1, 3])]))
   \<and> incoming (conn (server_cc [HeaderMsg Bar_header, BodyMsg (Data [1, 3])]))
       = HeaderMsg Bar_header # [BodyMsg (Data [1, 3])]
   \<and> findService example_server (ServiceMethod Bar_header)
       = (None, None, Some ''rpc server: can't find service Bar'')
   \<and> (\<exists>req. readRequest example_server (server_cc [HeaderMsg Bar_header, BodyMsg (Data [1, 3])])
               = Inr ((Some req, Some ''rpc server: can't find service Bar''),
                      server_cc [BodyMsg (Data [1, 3])])
             \<and> h req = Bar_header)
   \<and> pass_codec (serveCodec_pass example_server
         (server_cc [HeaderMsg Bar_header, BodyMsg (Data [1, 3])]))
       = sendResponse (server_cc [BodyMsg (Data [1, 3])])
           (Bar_header\<lparr>Error := ''rpc server: can't find service Bar''\<rparr>) invalidRequest
   \<and> incoming (conn (pass_codec (serveCodec_pass example_server
          (server_cc [HeaderMsg Bar_header, BodyMsg (Data [1, 3])]))))
       = [BodyMsg (Data [1, 3])]"
  using lookup_failure_body_unread[OF server_cc_Bar(1,2) findService_Bar, unfolded server_cc_Bar(3)]
    server_cc_Bar(1,2) findService_Bar
  by (simp add: sendResponse_incoming server_cc_fields)

end
